theory Spec2Isabelle
  imports Main "HOL-Library.AList"
begin

section \<open>Python strings\<close>

text \<open>
  The functions of \<^verbatim>\<open>pollination_dsl/common.py\<close> and
  \<^verbatim>\<open>pollination_dsl/package.py\<close> work on Python strings with
  \<^verbatim>\<open>str.split\<close>, \<^verbatim>\<open>str.replace\<close>, \<^verbatim>\<open>str.strip\<close>,
  \<^verbatim>\<open>str.join\<close>, \<^verbatim>\<open>int(...)\<close> and \<^verbatim>\<open>str(...)\<close>. A string is a
  \<^typ>\<open>string\<close>; only ASCII text is distinguished. Isabelle names cannot start with an
  underscore, so \<^verbatim>\<open>_get_package_version\<close> is \<open>get_package_version\<close> and so on.
\<close>

text \<open>\<^verbatim>\<open>s.startswith(p)\<close>.\<close>

definition startswith :: "string \<Rightarrow> string \<Rightarrow> bool" where
  "startswith s p = (take (length p) s = p)"

text \<open>
  \<^verbatim>\<open>s.split(sep)\<close> for a non-empty separator: the pieces between the non-overlapping
  occurrences of \<open>sep\<close>, found from the left. \<open>acc\<close> holds the current piece, reversed.
  (Python raises on an empty separator; every call of the source passes a literal.)
\<close>

function py_split_aux :: "string \<Rightarrow> string \<Rightarrow> string \<Rightarrow> string list" where
  "py_split_aux sep acc [] = [rev acc]"
| "py_split_aux sep acc (c # cs) =
     (if sep \<noteq> [] \<and> startswith (c # cs) sep
      then rev acc # py_split_aux sep [] (drop (length sep) (c # cs))
      else py_split_aux sep (c # acc) cs)"
  by pat_completeness auto
termination
  by (relation "measure (\<lambda>(sep, acc, s). length s)") auto

definition py_split :: "string \<Rightarrow> string \<Rightarrow> string list" where
  "py_split sep s = py_split_aux sep [] s"

text \<open>\<^verbatim>\<open>s.replace(old, new)\<close> for a non-empty \<open>old\<close>.\<close>

function py_replace :: "string \<Rightarrow> string \<Rightarrow> string \<Rightarrow> string" where
  "py_replace old new [] = []"
| "py_replace old new (c # cs) =
     (if old \<noteq> [] \<and> startswith (c # cs) old
      then new @ py_replace old new (drop (length old) (c # cs))
      else c # py_replace old new cs)"
  by pat_completeness auto
termination
  by (relation "measure (\<lambda>(old, new, s). length s)") auto

text \<open>\<^verbatim>\<open>sep.join(xs)\<close>.\<close>

fun py_join :: "string \<Rightarrow> string list \<Rightarrow> string" where
  "py_join sep [] = []"
| "py_join sep [x] = x"
| "py_join sep (x # y # ys) = x @ sep @ py_join sep (y # ys)"

text \<open>
  \<^verbatim>\<open>s.strip()\<close>: the ASCII characters for which \<^verbatim>\<open>str.isspace\<close> holds are
  tab, line feed, vertical tab, form feed, carriage return, the four separators
  \<open>0x1c\<close> to \<open>0x1f\<close>, and the space.
\<close>

definition is_space :: "char \<Rightarrow> bool" where
  "is_space c = (let n = (of_char c :: nat) in (9 \<le> n \<and> n \<le> 13) \<or> (28 \<le> n \<and> n \<le> 32))"

definition py_strip :: "string \<Rightarrow> string" where
  "py_strip s = rev (dropWhile is_space (rev (dropWhile is_space s)))"

text \<open>\<^verbatim>\<open>str(n)\<close> for an integer: decimal digits, with a minus sign when negative.\<close>

fun nat_digits :: "nat \<Rightarrow> string" where
  "nat_digits n =
     (if n < 10 then [''0123456789'' ! n]
      else nat_digits (n div 10) @ [''0123456789'' ! (n mod 10)])"

definition py_str :: "int \<Rightarrow> string" where
  "py_str i = (if i < 0 then CHR ''-'' # nat_digits (nat (- i)) else nat_digits (nat i))"

text \<open>
  \<^verbatim>\<open>int(s)\<close> in base 10: surrounding whitespace is dropped, one sign is allowed, and the
  digits may be grouped by single underscores. \<open>None\<close> is Python's \<^verbatim>\<open>ValueError\<close>.
\<close>

definition is_digit :: "char \<Rightarrow> bool" where
  "is_digit c = (c \<in> set ''0123456789'')"

definition digit_val :: "char \<Rightarrow> int" where
  "digit_val c = int (of_char c) - 48"

definition parse_digits :: "string \<Rightarrow> int option" where
  "parse_digits s =
     (let groups = py_split ''_'' s
      in if (\<forall>g \<in> set groups. g \<noteq> [] \<and> (\<forall>c \<in> set g. is_digit c))
         then Some (foldl (\<lambda>a c. 10 * a + digit_val c) 0 (concat groups))
         else None)"

definition py_int :: "string \<Rightarrow> int option" where
  "py_int s =
     (case py_strip s of
        [] \<Rightarrow> None
      | c # cs \<Rightarrow>
          if c = CHR ''-'' then map_option uminus (parse_digits cs)
          else if c = CHR ''+'' then parse_digits cs
          else parse_digits (c # cs))"

section \<open>Errors\<close>

text \<open>
  Every exception the modelled code can raise is a value: the class of the exception and,
  for the errors the source raises itself, its message. Errors raised by the interpreter or
  by a library carry the message the environment gives them (empty where the model raises
  them itself).
\<close>

datatype error_kind =
    TypeError | ValueError | AssertionError | KeyError | AttributeError
  | ModuleNotFoundError | PackageNotFoundError | DistributionNotFound
  | FileNotFoundError | OtherError

datatype error = Error (err_kind: error_kind) (err_msg: string)

section \<open>Package metadata (\<^verbatim>\<open>common.py\<close>)\<close>

text \<open>
  \<^verbatim>\<open>importlib_metadata.metadata(name)\<close> returns an \<^verbatim>\<open>email.message.Message\<close>.
  The source only calls \<^verbatim>\<open>get\<close>, \<^verbatim>\<open>get_all\<close> and \<^verbatim>\<open>get_payload\<close> on it, so
  a message is given by what these three return (\<open>None\<close> for a missing header).
\<close>

record message =
  msg_get :: "string \<Rightarrow> string option"
  msg_get_all :: "string \<Rightarrow> string list option"
  msg_get_payload :: string

text \<open>
  \<^verbatim>\<open>_get_package_version\<close>: a version with at most three dot-separated components is
  returned as it is; otherwise the first three components are kept and the third is
  decremented. A missing \<^verbatim>\<open>Version\<close> header fails in \<^verbatim>\<open>None.split\<close>, a third
  component that is no integer fails in \<^verbatim>\<open>int(z)\<close>.
\<close>

definition get_package_version :: "message \<Rightarrow> error + string" where
  "get_package_version package_data =
     (case msg_get package_data ''Version'' of
        None \<Rightarrow> Inl (Error AttributeError [])
      | Some version \<Rightarrow>
          (let xyz = py_split ''.'' version
           in if length xyz \<le> 3 then Inr version
              else (case py_int (xyz ! 2) of
                      None \<Rightarrow> Inl (Error ValueError [])
                    | Some z \<Rightarrow> Inr (xyz ! 0 @ ''.'' @ xyz ! 1 @ ''.'' @ py_str (z - 1)))))"


text \<open>
  \<^verbatim>\<open>_get_package_readme\<close>: the payload of the metadata message, or, when that is blank,
  the \<^verbatim>\<open>Description\<close> header with eight leading spaces removed from every line
  (\<^verbatim>\<open>re.sub('^        ', '', line)\<close>). \<open>find_metadata\<close> is
  \<^verbatim>\<open>importlib_metadata.metadata\<close>: \<open>None\<close> is its \<^verbatim>\<open>PackageNotFoundError\<close>.
\<close>

definition newline :: string where
  "newline = [CHR 0x0A]"

definition dedent_line :: "string \<Rightarrow> string" where
  "dedent_line line =
     (if startswith line (replicate 8 CHR '' '') then drop 8 line else line)"

definition get_package_readme :: "(string \<Rightarrow> message option) \<Rightarrow> string \<Rightarrow> error + string" where
  "get_package_readme find_metadata package_name =
     (case find_metadata (py_replace ''-'' ''_'' package_name) of
        None \<Rightarrow> Inl (Error PackageNotFoundError [])
      | Some package_data \<Rightarrow>
          (let long_description = msg_get_payload package_data
           in if py_strip long_description = []
              then (case msg_get package_data ''Description'' of
                      None \<Rightarrow> Inl (Error AttributeError [])
                    | Some content \<Rightarrow>
                        Inr (py_join newline (map dedent_line (py_split newline content))))
              else Inr long_description))"

subsection \<open>Requirements and docker images\<close>

text \<open>
  What \<^verbatim>\<open>pkg_resources.parse_requirements\<close> makes of one line of
  \<^verbatim>\<open>requires.txt\<close>: a requirement, given by its \<^verbatim>\<open>project_name\<close> and the text of
  its \<^verbatim>\<open>specifier\<close>, or a line it cannot read, such as the header \<^verbatim>\<open>[test]\<close> of a
  section of extras, on which it raises \<^verbatim>\<open>InvalidRequirement\<close>, a \<^verbatim>\<open>ValueError\<close>.
  Blank lines and comments are skipped by the parser and are not listed.
\<close>

datatype req_line = Requirement string string | InvalidRequirement

text \<open>
  What \<^verbatim>\<open>pkg_resources.get_distribution(name).get_metadata('requires.txt')\<close> gives:
  no such distribution (\<^verbatim>\<open>DistributionNotFound\<close>), a distribution without the file
  (\<^verbatim>\<open>FileNotFoundError\<close>), or the file, as its lines in order.
\<close>

datatype dist_requires =
    NoDistribution
  | NoRequiresTxt
  | RequiresTxt "req_line list"

text \<open>
  The loop over \<^verbatim>\<open>Requires-Dist\<close>: \<^verbatim>\<open>name, version = package.split(' (')\<close> raises
  \<^verbatim>\<open>ValueError\<close> unless the entry splits in exactly two.
\<close>

definition clean_version :: "string \<Rightarrow> string" where
  "clean_version version = py_replace ''<'' [] (py_replace ''>'' [] (py_replace ''='' [] version))"

fun requirements_from_metadata ::
  "string list \<Rightarrow> (string \<times> string) list \<Rightarrow> error + (string \<times> string) list" where
  "requirements_from_metadata [] requirements = Inr requirements"
| "requirements_from_metadata (package # req_dists) requirements =
     (case py_split '' ('' package of
        [name, version] \<Rightarrow>
          requirements_from_metadata req_dists
            (AList.update name (py_strip (py_replace '')'' [] (clean_version version))) requirements)
      | _ \<Rightarrow> Inl (Error ValueError []))"

text \<open>
  The loop over \<^verbatim>\<open>pkg_resources.parse_requirements(req)\<close>: the parser is a generator,
  so the requirements before a line it cannot read are recorded, and then its error leaves
  the loop and the function.
\<close>

fun requirements_from_txt ::
  "req_line list \<Rightarrow> (string \<times> string) list \<Rightarrow> error + (string \<times> string) list" where
  "requirements_from_txt [] requirements = Inr requirements"
| "requirements_from_txt (Requirement project_name specifier # req) requirements =
     requirements_from_txt req (AList.update project_name (clean_version specifier) requirements)"
| "requirements_from_txt (InvalidRequirement # req) requirements = Inl (Error ValueError [])"

definition lookup_requirement ::
  "string \<Rightarrow> string \<Rightarrow> (string \<times> string) list \<Rightarrow> error + string" where
  "lookup_requirement package_name dependency_name requirements =
     (case map_of requirements dependency_name of
        None \<Rightarrow>
          Inl (Error AssertionError
                 (dependency_name @ '' is not a requirement for '' @ package_name @ ''.''))
      | Some version \<Rightarrow> Inr version)"

definition get_requirement_version ::
  "(string \<Rightarrow> dist_requires) \<Rightarrow> (string \<Rightarrow> message option) \<Rightarrow> string \<Rightarrow> string \<Rightarrow> error + string"
  where
  "get_requirement_version find_requires find_metadata package_name dependency =
     (let fixed_name = py_replace ''pollination.'' ''pollination_'' package_name;
          dependency_name = py_replace ''_'' ''-'' dependency
      in case find_requires fixed_name of
           NoDistribution \<Rightarrow> Inl (Error DistributionNotFound [])
         | NoRequiresTxt \<Rightarrow>
             (case find_metadata fixed_name of
                None \<Rightarrow> Inl (Error PackageNotFoundError [])
              | Some package_data \<Rightarrow>
                  (let req_dists = (case msg_get_all package_data ''Requires-Dist'' of
                                      None \<Rightarrow> [] | Some ds \<Rightarrow> ds)
                   in case requirements_from_metadata req_dists [] of
                        Inl e \<Rightarrow> Inl e
                      | Inr requirements \<Rightarrow>
                          lookup_requirement package_name dependency_name requirements))
         | RequiresTxt req \<Rightarrow>
             (case requirements_from_txt req [] of
                Inl e \<Rightarrow> Inl e
              | Inr requirements \<Rightarrow>
                  lookup_requirement package_name dependency_name requirements))"

text \<open>
  \<^verbatim>\<open>get_docker_image_from_dependency\<close>: only \<^verbatim>\<open>FileNotFoundError\<close> and
  \<^verbatim>\<open>AssertionError\<close> are caught; any other error of \<^verbatim>\<open>get_requirement_version\<close>
  leaves the function. The second component is the list of warnings passed to
  \<^verbatim>\<open>warnings.warn\<close>. The \<^verbatim>\<open>owner\<close> argument is not used by the source.
\<close>

definition get_docker_image_from_dependency ::
  "(string \<Rightarrow> dist_requires) \<Rightarrow> (string \<Rightarrow> message option) \<Rightarrow> string \<Rightarrow> string \<Rightarrow> string
     \<Rightarrow> (error + string) \<times> string list" where
  "get_docker_image_from_dependency find_requires find_metadata package dependency owner =
     (case get_requirement_version find_requires find_metadata package dependency of
        Inr image_version \<Rightarrow> (Inr (''ladybugtools/'' @ dependency @ '':'' @ image_version), [])
      | Inl e \<Rightarrow>
          if err_kind e = FileNotFoundError \<or> err_kind e = AssertionError
          then (Inr (''ladybugtools/'' @ dependency @ '':latest''),
                [''Failed to pinpoint the version for '' @ dependency @ '' as a dependency for''
                 @ '' '' @ package @ ''. Will set the docker version to latest.'' @ newline
                 @ err_msg e])
          else (Inl e, []))"


section \<open>Workflow objects\<close>

text \<open>
  A queenbee DAG, as far as the packaging code looks at it: its name (which
  \<^verbatim>\<open>_load_recipe\<close> assigns) and its tasks.
\<close>

record qb_dag =
  dag_name :: string
  dag_tasks :: "string list"

text \<open>
  An object of the DSL's \<^verbatim>\<open>DAG\<close> class: its \<^verbatim>\<open>queenbee\<close> translation, the name
  and version of the package that defines it, and its steps. A step uses a function
  template of a package (given by that package's name and version) or another DAG object.
\<close>

datatype dag = DAG (dag_queenbee: qb_dag) (dag_package: "string \<times> string") (dag_nodes: "node list")
  and node = FunctionNode "string \<times> string" | DagNode dag

text \<open>
  The values stored in a module's \<^verbatim>\<open>__pollination__\<close> dictionary: \<^verbatim>\<open>None\<close>, strings,
  lists, dictionaries, and callables. A callable is given by what calling it without
  arguments returns: a DAG object, or \<open>None\<close> for a result that is falsy. A dictionary is
  an association list in insertion order (\<open>AList.update\<close> keeps the place of a key that
  is already there and appends a new one, as Python does).
\<close>

datatype pval =
    VNone
  | VStr string
  | VList "pval list"
  | VDict "(string \<times> pval) list"
  | VCallable "dag option"

type_synonym pdict = "(string \<times> pval) list"

definition opt_str :: "string option \<Rightarrow> pval" where
  "opt_str v = (case v of None \<Rightarrow> VNone | Some s \<Rightarrow> VStr s)"

text \<open>Truth value of an optional string: \<^verbatim>\<open>None\<close> and \<^verbatim>\<open>''\<close> are falsy.\<close>

definition truthy :: "string option \<Rightarrow> bool" where
  "truthy v = (v \<noteq> None \<and> v \<noteq> Some [])"

subsection \<open>The fields of \<^verbatim>\<open>_get_package_data\<close>\<close>

definition get_package_license :: "message \<Rightarrow> error + pval" where
  "get_package_license package_data =
     (let license_info = msg_get package_data ''License''
      in if \<not> truthy license_info then Inr (VDict [(''name'', VNone), (''url'', VNone)])
         else if CHR '','' \<in> set (the license_info)
         then (case map py_strip (py_split '','' (the license_info)) of
                 [license, link] \<Rightarrow> Inr (VDict [(''name'', VStr license), (''url'', VStr link)])
               | _ \<Rightarrow> Inl (Error ValueError []))
         else Inr (VDict [(''name'', VStr (py_strip (the license_info))), (''url'', VNone)]))"

definition get_package_keywords :: "message \<Rightarrow> pval" where
  "get_package_keywords package_data =
     (let keywords = msg_get package_data ''Keyword''
      in if truthy keywords
         then VList (map (\<lambda>key. VStr (py_strip key)) (py_split '','' (the keywords)))
         else opt_str keywords)"

fun find_icon :: "string list \<Rightarrow> error + pval" where
  "find_icon [] = Inr VNone"
| "find_icon (url # urls) =
     (case py_split '','' url of
        [key, val] \<Rightarrow> if key = ''icon'' then Inr (VStr (py_strip val)) else find_icon urls
      | _ \<Rightarrow> Inl (Error ValueError []))"

definition get_package_icon :: "message \<Rightarrow> error + pval" where
  "get_package_icon package_data =
     (case msg_get_all package_data ''Project-URL'' of
        None \<Rightarrow> Inl (Error TypeError [])
      | Some urls \<Rightarrow> find_icon urls)"

definition get_package_maintainers :: "message \<Rightarrow> pval" where
  "get_package_maintainers package_data =
     (let maintainer = msg_get package_data ''Maintainer'';
          maintainer_email = msg_get package_data ''Maintainer-email''
      in if truthy maintainer
         then (let maintainers = map py_strip (py_split '','' (the maintainer))
               in if truthy maintainer_email
                  then (let emails = map py_strip (py_split '','' (the maintainer_email))
                        in VList (map (\<lambda>(name, email). VDict [(''name'', VStr name), (''email'', VStr email)])
                                    (zip maintainers emails)))
                  else VList (map (\<lambda>name. VDict [(''name'', VStr name), (''email'', VNone)])
                                maintainers))
         else VList [])"

text \<open>
  \<^verbatim>\<open>_get_package_data\<close>: the dictionary literal is evaluated entry by entry, so the first
  failing entry decides the error.
\<close>

definition get_package_data :: "(string \<Rightarrow> message option) \<Rightarrow> string \<Rightarrow> error + pdict" where
  "get_package_data find_metadata package_name =
     (case find_metadata package_name of
        None \<Rightarrow> Inl (Error PackageNotFoundError [])
      | Some package_data \<Rightarrow>
          (case msg_get package_data ''Name'' of
             None \<Rightarrow> Inl (Error AttributeError [])
           | Some name \<Rightarrow>
               (case get_package_version package_data of
                  Inl e \<Rightarrow> Inl e
                | Inr tag \<Rightarrow>
                    (case get_package_license package_data of
                       Inl e \<Rightarrow> Inl e
                     | Inr license \<Rightarrow>
                         (case get_package_icon package_data of
                            Inl e \<Rightarrow> Inl e
                          | Inr icon \<Rightarrow>
                              Inr [(''name'', VStr (py_replace ''pollination-'' [] name)),
                                   (''description'', opt_str (msg_get package_data ''Summary'')),
                                   (''home'', opt_str (msg_get package_data ''Home-page'')),
                                   (''tag'', VStr tag),
                                   (''keywords'', get_package_keywords package_data),
                                   (''maintainers'', get_package_maintainers package_data),
                                   (''license'', license),
                                   (''icon'', icon)])))))"

section \<open>The process: installed packages, queenbee, and the repository folder\<close>

text \<open>
  An attribute found by \<^verbatim>\<open>dir(module)\<close> in a submodule of a plugin package: the
  \<^verbatim>\<open>Function\<close> base class itself, a class decorated as a function (given by the queenbee
  function its instance translates to), or anything else.
\<close>

datatype attr = FunctionBase | FunctionClass string | OtherAttr

text \<open>
  An imported module: its \<^verbatim>\<open>__pollination__\<close> dictionary (\<open>None\<close> when the attribute
  is missing) and the attributes of each of its submodules, in the order of
  \<^verbatim>\<open>pkgutil.iter_modules\<close>. Modules are kept by their dotted name, which is also their
  \<^verbatim>\<open>__name__\<close>; a module object is referred to by that name, so that every reference sees
  the one shared dictionary.
\<close>

record pymodule =
  mod_pollination :: "pdict option"
  mod_submodules :: "attr list list"

text \<open>Queenbee's objects.\<close>

datatype metadata = MetaData pdict

datatype plugin_config = PluginConfig pval

datatype dependency_kind = DependencyKind_plugin | DependencyKind_recipe

record dependency =
  dependency_kind :: dependency_kind
  dependency_name :: string
  dependency_tag :: string
  dependency_source :: string

record plugin =
  plugin_config :: plugin_config
  plugin_metadata :: metadata
  plugin_functions :: "string list"

record recipe =
  recipe_metadata :: metadata
  recipe_dependencies :: "dependency list"
  recipe_flow :: "qb_dag list"

datatype qb_object = QPlugin plugin | QRecipe recipe | QBakedRecipe recipe

text \<open>
  The repository folder \<^verbatim>\<open>~/.queenbee/pollination-dsl\<close>: whether it exists, the files
  of \<^verbatim>\<open>plugins/\<close> and \<^verbatim>\<open>recipes/\<close> with their contents (\<open>None\<close> when the folder
  is missing), and the index read from \<^verbatim>\<open>index.json\<close> (\<open>None\<close> when the file is
  missing). Each path is either missing or of the expected kind, and file operations do not
  fail for reasons outside the program (permissions, disk space).
\<close>

record index =
  index_plugin :: "string list"
  index_recipe :: "string list"

record repo_fs =
  root_folder :: bool
  plugins_folder :: "(string \<times> string) list option"
  recipes_folder :: "(string \<times> string) list option"
  index_file :: "index option"

text \<open>
  The environment of a call: the home directory, the metadata of the installed
  distributions, and the functions of the queenbee library that the source calls. A
  pydantic constructor or \<^verbatim>\<open>parse_obj\<close> may reject its input; a validator is given by
  the error it raises, if any.
\<close>

record env =
  HOME :: string
  find_metadata :: "string \<Rightarrow> message option"
  find_requires :: "string \<Rightarrow> dist_requires"
  PluginConfig_parse_obj :: "pval \<Rightarrow> error + plugin_config"
  MetaData_parse_obj :: "pdict \<Rightarrow> error + metadata"
  Plugin_validate :: "plugin \<Rightarrow> error option"
  Recipe_validate :: "recipe \<Rightarrow> error option"
  BakedRecipe_from_recipe :: "recipe \<Rightarrow> string \<Rightarrow> repo_fs \<Rightarrow> error + recipe"
  package_resource :: "qb_object \<Rightarrow> string \<Rightarrow> error + (string \<times> string)"

text \<open>The state of the process: the imported modules and the repository folder.\<close>

record world =
  modules :: "(string \<times> pymodule) list"
  repo :: repo_fs


subsection \<open>\<^verbatim>\<open>import_module\<close> and \<^verbatim>\<open>_get_meta_data\<close>\<close>

definition quote :: string where
  "quote = [CHR 0x27]"

definition import_err_msg :: "string \<Rightarrow> string" where
  "import_err_msg package_name =
     ''No module named '' @ quote @ package_name @ quote
     @ ''. Did you forget to install the module?'' @ newline
     @ ''You can use `pip install` command to install the package from a local ''
     @ ''repository or from PyPI.''"

text \<open>
  \<^verbatim>\<open>import_module\<close>: the name with dashes replaced is imported; when that fails, the
  part before the first underscore is tried as a namespace package. The result is the
  name under which the module is kept.
\<close>

definition import_module :: "world \<Rightarrow> string \<Rightarrow> error + string" where
  "import_module w name =
     (let package_name = py_replace ''-'' ''_'' name
      in if map_of (modules w) package_name \<noteq> None then Inr package_name
         else (let package_name_segments = py_split ''_'' package_name
               in if length package_name_segments = 1
                  then Inl (Error ModuleNotFoundError (import_err_msg package_name))
                  else (let namespace = package_name_segments ! 0;
                            name' = py_join ''_'' (tl package_name_segments)
                        in if map_of (modules w) (namespace @ ''.'' @ name') \<noteq> None
                           then Inr (namespace @ ''.'' @ name')
                           else Inl (Error ModuleNotFoundError (import_err_msg package_name)))))"

text \<open>\<^verbatim>\<open>module.__pollination__\<close>, and the assignment through a reference to it.\<close>

definition pollination_of :: "world \<Rightarrow> string \<Rightarrow> pdict option" where
  "pollination_of w module =
     (case map_of (modules w) module of None \<Rightarrow> None | Some m \<Rightarrow> mod_pollination m)"

definition set_pollination :: "world \<Rightarrow> string \<Rightarrow> pdict \<Rightarrow> world" where
  "set_pollination w module qb_info =
     w\<lparr>modules := AList.map_entry module (\<lambda>m. m\<lparr>mod_pollination := Some qb_info\<rparr>) (modules w)\<rparr>"

text \<open>
  The loop of \<^verbatim>\<open>_get_meta_data\<close> over the package data: \<^verbatim>\<open>None\<close> values are skipped,
  and the package name is only used when the dictionary has no name.
\<close>

definition merge_entry :: "pdict \<Rightarrow> string \<times> pval \<Rightarrow> pdict" where
  "merge_entry qb_info kv =
     (if snd kv = VNone then qb_info
      else if fst kv = ''name'' \<and> map_of qb_info ''name'' \<noteq> None then qb_info
      else AList.update (fst kv) (snd kv) qb_info)"

text \<open>
  \<^verbatim>\<open>_get_meta_data\<close>: \<^verbatim>\<open>qb_info\<close> is the module's own dictionary, so the
  \<^verbatim>\<open>pop\<close> and the assignments change what every later reader of
  \<^verbatim>\<open>module.__pollination__\<close> sees, also when \<^verbatim>\<open>MetaData.parse_obj\<close> then fails.
\<close>

definition get_meta_data :: "env \<Rightarrow> world \<Rightarrow> string \<Rightarrow> string \<Rightarrow> (error + metadata) \<times> world" where
  "get_meta_data E w module package_type =
     (case pollination_of w module of
        None \<Rightarrow> (Inl (Error AttributeError []), w)
      | Some qb_info \<Rightarrow>
          (case get_package_data (find_metadata E) module of
             Inl e \<Rightarrow> (Inl e, w)
           | Inr package_data \<Rightarrow>
               (let key = (if package_type = ''plugin'' then ''config'' else ''entry_point'')
                in if map_of qb_info key = None then (Inl (Error KeyError (quote @ key @ quote)), w)
                   else (let qb_info' = foldl merge_entry (AList.delete key qb_info) package_data
                         in (MetaData_parse_obj E qb_info', set_pollination w module qb_info')))))"

section \<open>Collecting the dependencies of a DAG\<close>

record dependencies =
  dep_plugin :: "(string \<times> string) list"
  dep_recipe :: "(string \<times> string) list"
  dep_dag :: "dag list"

text \<open>
  Modelled from the spec: the \<^verbatim>\<open>_dependencies\<close> property of the DSL's \<^verbatim>\<open>DAG\<close>
  class is defined in \<^verbatim>\<open>pollination_dsl/dag.py\<close>, which is not among the sources at
  hand. The specification says of two references to the same package that the second is
  treated as already satisfied and is not added, whatever its version.
\<close>

definition record_dep :: "string \<times> string \<Rightarrow> (string \<times> string) list \<Rightarrow> (string \<times> string) list" where
  "record_dep d ds = (if fst d \<in> fst ` set ds then ds else ds @ [d])"

text \<open>
  Modelled from the spec: the walk of \<^verbatim>\<open>_dependencies\<close> is described as a depth-first
  traversal of the steps of the entry graph. A step that uses a function template of
  another package records a plugin dependency on that package. A step that uses a
  sub-graph of another package records a recipe dependency and does not descend; a
  sub-graph of the same package is added to the DAGs in first-discovery order, unless it
  was collected already, and its steps are walked.
\<close>

fun collect_node :: "string \<Rightarrow> node \<Rightarrow> dependencies \<Rightarrow> dependencies"
  and collect_nodes :: "string \<Rightarrow> node list \<Rightarrow> dependencies \<Rightarrow> dependencies" where
  "collect_node current (FunctionNode p) acc =
     (if fst p \<noteq> current then acc\<lparr>dep_plugin := record_dep p (dep_plugin acc)\<rparr> else acc)"
| "collect_node current (DagNode (DAG q p ns)) acc =
     (if fst p \<noteq> current then acc\<lparr>dep_recipe := record_dep p (dep_recipe acc)\<rparr>
      else if DAG q p ns \<in> set (dep_dag acc) then acc
      else collect_nodes current ns (acc\<lparr>dep_dag := dep_dag acc @ [DAG q p ns]\<rparr>))"
| "collect_nodes current [] acc = acc"
| "collect_nodes current (n # ns) acc = collect_nodes current ns (collect_node current n acc)"

text \<open>
  Modelled from the spec: \<^verbatim>\<open>main_dag._dependencies\<close> is the walk of the entry
  graph's steps, starting with nothing collected; the entry DAG itself is not among the
  collected DAGs.
\<close>

definition collect :: "dag \<Rightarrow> dependencies" where
  "collect entry =
     collect_nodes (fst (dag_package entry)) (dag_nodes entry)
       \<lparr>dep_plugin = [], dep_recipe = [], dep_dag = []\<rparr>"


section \<open>The local repository (\<^verbatim>\<open>package.py\<close>)\<close>

text \<open>
  \<^verbatim>\<open>pathlib.Path(HOME, '.queenbee', 'pollination-dsl')\<close> in POSIX form, and its
  \<^verbatim>\<open>as_uri()\<close> (the percent-encoding of special characters is left out).
\<close>

definition repository_path :: "env \<Rightarrow> string" where
  "repository_path E =
     (if HOME E = ''/'' then ''/.queenbee/pollination-dsl''
      else HOME E @ ''/.queenbee/pollination-dsl'')"

definition as_uri :: "string \<Rightarrow> string" where
  "as_uri path = ''file://'' @ path"

text \<open>
  Modelled from the spec: \<^verbatim>\<open>RepositoryIndex.from_folder\<close> belongs to the queenbee
  library, whose source is not at hand. The specification describes it as the operation
  that scans the physical contents of both stores and regenerates the index from scratch,
  so that the index enumerates exactly the artifact files present. Listing a folder that
  does not exist fails, as \<^verbatim>\<open>os.listdir\<close> does.
\<close>

definition from_folder :: "repo_fs \<Rightarrow> error + index" where
  "from_folder fs =
     (case plugins_folder fs of
        None \<Rightarrow> Inl (Error FileNotFoundError [])
      | Some ps \<Rightarrow>
          (case recipes_folder fs of
             None \<Rightarrow> Inl (Error FileNotFoundError [])
           | Some rs \<Rightarrow> Inr \<lparr>index_plugin = map fst ps, index_recipe = map fst rs\<rparr>))"

text \<open>\<^verbatim>\<open>folder.mkdir(exist_ok=True)\<close>: an existing folder keeps its files.\<close>

definition mkdir :: "(string \<times> string) list option \<Rightarrow> (string \<times> string) list option" where
  "mkdir folder = (case folder of None \<Rightarrow> Some [] | Some files \<Rightarrow> Some files)"

text \<open>
  \<^verbatim>\<open>_init_repo\<close>: the folders are created when missing; the index file is written only
  when it does not exist, from a scan of the folder.
\<close>

definition init_repo :: "env \<Rightarrow> repo_fs \<Rightarrow> (error + string) \<times> repo_fs" where
  "init_repo E fs =
     (let path = repository_path E;
          fs1 = fs\<lparr>root_folder := True\<rparr>;
          fs2 = fs1\<lparr>plugins_folder := mkdir (plugins_folder fs1)\<rparr>;
          fs3 = fs2\<lparr>recipes_folder := mkdir (recipes_folder fs2)\<rparr>
      in if index_file fs3 = None
         then (case from_folder fs3 of
                 Inl e \<Rightarrow> (Inl e, fs3)
               | Inr index \<Rightarrow> (Inr path, fs3\<lparr>index_file := Some index\<rparr>))
         else (Inr path, fs3))"

text \<open>
  \<^verbatim>\<open>_load_plugin\<close>: the configuration is parsed, the metadata built, and every attribute
  of every submodule that is decorated as a function, the \<^verbatim>\<open>Function\<close> class apart, is
  translated.
\<close>

definition scan_functions :: "attr list list \<Rightarrow> string list" where
  "scan_functions submodules =
     concat (map (List.map_filter (\<lambda>a. case a of FunctionClass f \<Rightarrow> Some f | _ \<Rightarrow> None)) submodules)"

definition load_plugin :: "env \<Rightarrow> world \<Rightarrow> string \<Rightarrow> (error + plugin) \<times> world" where
  "load_plugin E w module =
     (case pollination_of w module of
        None \<Rightarrow> (Inl (Error AttributeError []), w)
      | Some qb_info \<Rightarrow>
          (case map_of qb_info ''config'' of
             None \<Rightarrow> (Inl (Error KeyError (quote @ ''config'' @ quote)), w)
           | Some c \<Rightarrow>
               (case PluginConfig_parse_obj E c of
                  Inl e \<Rightarrow> (Inl e, w)
                | Inr config \<Rightarrow>
                    (case get_meta_data E w module ''plugin'' of
                       (Inl e, w') \<Rightarrow> (Inl e, w')
                     | (Inr metadata, w') \<Rightarrow>
                         (let submodules = (case map_of (modules w') module of
                                              None \<Rightarrow> [] | Some m \<Rightarrow> mod_submodules m);
                              plugin = \<lparr>plugin_config = config, plugin_metadata = metadata,
                                        plugin_functions = scan_functions submodules\<rparr>
                          in case Plugin_validate E plugin of
                               Some e \<Rightarrow> (Inl e, w')
                             | None \<Rightarrow> (Inr plugin, w'))))))"

text \<open>
  Calling the value found under \<^verbatim>\<open>entry_point\<close>:
  \<^verbatim>\<open>qb_info.get('entry_point', None)()\<close>. Only a callable can be called; for a
  missing key the call is \<^verbatim>\<open>None()\<close>.
\<close>

definition type_name :: "pval \<Rightarrow> string" where
  "type_name v =
     (case v of VNone \<Rightarrow> ''NoneType'' | VStr _ \<Rightarrow> ''str'' | VList _ \<Rightarrow> ''list''
      | VDict _ \<Rightarrow> ''dict'' | VCallable _ \<Rightarrow> ''type'')"

definition call_entry_point :: "pdict \<Rightarrow> error + dag option" where
  "call_entry_point qb_info =
     (case (case map_of qb_info ''entry_point'' of None \<Rightarrow> VNone | Some v \<Rightarrow> v) of
        VCallable result \<Rightarrow> Inr result
      | v \<Rightarrow> Inl (Error TypeError (quote @ type_name v @ quote @ '' object is not callable'')))"

definition make_dependency :: "dependency_kind \<Rightarrow> string \<Rightarrow> string \<times> string \<Rightarrow> dependency" where
  "make_dependency k repo_path d =
     \<lparr>dependency_kind = k, dependency_name = fst d, dependency_tag = snd d,
      dependency_source = as_uri repo_path\<rparr>"

text \<open>
  The recipe that \<^verbatim>\<open>_load_recipe\<close> builds from the metadata, the entry DAG object and
  the repository path: the entry DAG is renamed to \<^verbatim>\<open>main\<close> and put before the
  collected DAGs, and every collected plugin and recipe becomes a dependency.
\<close>

definition build_recipe :: "metadata \<Rightarrow> dag \<Rightarrow> string \<Rightarrow> recipe" where
  "build_recipe metadata main_dag repo_path =
     (let dependencies = collect main_dag;
          qb_dag = (dag_queenbee main_dag)\<lparr>dag_name := ''main''\<rparr>;
          dags = qb_dag # map dag_queenbee (dep_dag dependencies);
          plugins = map (make_dependency DependencyKind_plugin repo_path) (dep_plugin dependencies);
          recipes = map (make_dependency DependencyKind_recipe repo_path) (dep_recipe dependencies)
      in \<lparr>recipe_metadata = metadata, recipe_dependencies = plugins @ recipes, recipe_flow = dags\<rparr>)"

text \<open>
  \<^verbatim>\<open>_load_recipe\<close>. The entry point is called before the assertion on its result; the
  metadata is built next (which removes \<^verbatim>\<open>entry_point\<close> from the dictionary); then the
  repository is initialised and the recipe is built and, on request, baked.
\<close>

definition load_recipe :: "env \<Rightarrow> world \<Rightarrow> string \<Rightarrow> bool \<Rightarrow> (error + qb_object) \<times> world" where
  "load_recipe E w module baked =
     (case pollination_of w module of
        None \<Rightarrow> (Inl (Error AttributeError []), w)
      | Some qb_info \<Rightarrow>
          (case call_entry_point qb_info of
             Inl e \<Rightarrow> (Inl e, w)
           | Inr None \<Rightarrow>
               (Inl (Error AssertionError
                       (module @ '' __pollination__ info is missing the enetry_point key.'')), w)
           | Inr (Some main_dag) \<Rightarrow>
               (case get_meta_data E w module ''recipe'' of
                  (Inl e, w1) \<Rightarrow> (Inl e, w1)
                | (Inr metadata, w1) \<Rightarrow>
                    (case init_repo E (repo w1) of
                       (Inl e, fs) \<Rightarrow> (Inl e, w1\<lparr>repo := fs\<rparr>)
                     | (Inr repo_path, fs) \<Rightarrow>
                         (let w2 = w1\<lparr>repo := fs\<rparr>;
                              recipe = build_recipe metadata main_dag repo_path
                          in case Recipe_validate E recipe of
                               Some e \<Rightarrow> (Inl e, w2)
                             | None \<Rightarrow>
                                 if baked
                                 then (case BakedRecipe_from_recipe E recipe
                                              (''file:///'' @ repo_path) fs of
                                         Inl e \<Rightarrow> (Inl e, w2)
                                       | Inr b \<Rightarrow> (Inr (QBakedRecipe b), w2))
                                 else (Inr (QRecipe recipe), w2))))))"

text \<open>\<^verbatim>\<open>load\<close>: a package with a \<^verbatim>\<open>config\<close> key is a plugin, any other a recipe.\<close>

definition load :: "env \<Rightarrow> world \<Rightarrow> string \<Rightarrow> bool \<Rightarrow> (error + qb_object) \<times> world" where
  "load E w package_name baked =
     (case import_module w package_name of
        Inl e \<Rightarrow> (Inl e, w)
      | Inr module \<Rightarrow>
          (case pollination_of w module of
             None \<Rightarrow>
               (Inl (Error AssertionError ''Failed to find __pollination__ info in __init__.py''), w)
           | Some qb_info \<Rightarrow>
               if map_of qb_info ''config'' \<noteq> None
               then (case load_plugin E w module of
                       (Inl e, w') \<Rightarrow> (Inl e, w')
                     | (Inr p, w') \<Rightarrow> (Inr (QPlugin p), w'))
               else load_recipe E w module baked))"

text \<open>
  \<^verbatim>\<open>file_path.write_bytes\<close> into \<^verbatim>\<open>plugins/\<close> or \<^verbatim>\<open>recipes/\<close>
  (\<^verbatim>\<open>f'{qb_type}s'\<close>).
\<close>

definition write_bytes :: "repo_fs \<Rightarrow> string \<Rightarrow> string \<Rightarrow> string \<Rightarrow> error + repo_fs" where
  "write_bytes fs qb_type url bytes =
     (if qb_type = ''recipe''
      then (case recipes_folder fs of
              None \<Rightarrow> Inl (Error FileNotFoundError [])
            | Some files \<Rightarrow> Inr (fs\<lparr>recipes_folder := Some (AList.update url bytes files)\<rparr>))
      else (case plugins_folder fs of
              None \<Rightarrow> Inl (Error FileNotFoundError [])
            | Some files \<Rightarrow> Inr (fs\<lparr>plugins_folder := Some (AList.update url bytes files)\<rparr>)))"

text \<open>
  The argument of \<^verbatim>\<open>PackageVersion.package_resource\<close> is evaluated inside the
  \<^verbatim>\<open>try\<close>, so a failure to read the readme is wrapped like a failure to serialise.
\<close>

definition try_package_resource :: "env \<Rightarrow> qb_object \<Rightarrow> string \<Rightarrow> error + (string \<times> string)" where
  "try_package_resource E qb_obj package_name =
     (case get_package_readme (find_metadata E) package_name of
        Inl e \<Rightarrow> Inl e
      | Inr readme \<Rightarrow> package_resource E qb_obj readme)"

definition qb_type_of :: "qb_object \<Rightarrow> string" where
  "qb_type_of qb_obj = (case qb_obj of QPlugin _ \<Rightarrow> ''plugin'' | _ \<Rightarrow> ''recipe'')"

text \<open>
  \<^verbatim>\<open>package\<close>: initialise the repository, load the package, serialise it, write the
  artifact, and write the index generated from the folder.
\<close>

definition package :: "env \<Rightarrow> world \<Rightarrow> string \<Rightarrow> string option \<Rightarrow> (error + unit) \<times> world" where
  "package E w package_name readme =
     (case init_repo E (repo w) of
        (Inl e, fs) \<Rightarrow> (Inl e, w\<lparr>repo := fs\<rparr>)
      | (Inr path, fs) \<Rightarrow>
          (case load E (w\<lparr>repo := fs\<rparr>) package_name False of
             (Inl e, w1) \<Rightarrow> (Inl e, w1)
           | (Inr qb_obj, w1) \<Rightarrow>
               (let qb_type = qb_type_of qb_obj
                in case try_package_resource E qb_obj package_name of
                     Inl error \<Rightarrow>
                       (Inl (Error ValueError
                               (''Failed to package '' @ package_name @ '' '' @ qb_type
                                @ newline @ '' '' @ err_msg error)), w1)
                   | Inr (url, bytes) \<Rightarrow>
                       (case write_bytes (repo w1) qb_type url bytes of
                          Inl e \<Rightarrow> (Inl e, w1)
                        | Inr fs2 \<Rightarrow>
                            (case from_folder fs2 of
                               Inl e \<Rightarrow> (Inl e, w1\<lparr>repo := fs2\<rparr>)
                             | Inr repo_index \<Rightarrow>
                                 (Inr (), w1\<lparr>repo := fs2\<lparr>index_file := Some repo_index\<rparr>\<rparr>))))))"

section \<open>The specification's words, and examples\<close>



text \<open>A metadata message that only has \<^verbatim>\<open>Requires-Dist\<close> headers.\<close>

definition requires_message :: "string list \<Rightarrow> message" where
  "requires_message ds =
     \<lparr>msg_get = (\<lambda>h. None),
      msg_get_all = (\<lambda>h. if h = ''Requires-Dist'' then Some ds else None),
      msg_get_payload = []\<rparr>"

text \<open>
  An installation with two packages: the plugin package
  \<^verbatim>\<open>pollination-honeybee-radiance\<close>, a development release \<^verbatim>\<open>1.2.3.4\<close> that requires
  \<^verbatim>\<open>honeybee-radiance==1.2.3\<close>, and the recipe package \<^verbatim>\<open>pollination-daylight-factor\<close>,
  whose entry DAG uses the plugin directly and through the nested DAG \<^verbatim>\<open>post-process\<close>
  of the same package.
\<close>

definition demo_requires :: "string \<Rightarrow> dist_requires" where
  "demo_requires name =
     (if name = ''pollination_honeybee_radiance''
      then RequiresTxt [Requirement ''honeybee-radiance'' ''==1.2.3'', Requirement ''queenbee'' ''>=1.0'']
      else NoDistribution)"

definition demo_message :: "string \<Rightarrow> message" where
  "demo_message name =
     \<lparr>msg_get = (\<lambda>h. if h = ''Name'' then Some name
                     else if h = ''Version'' then Some ''1.2.3.4''
                     else if h = ''Summary'' then Some ''An example package.''
                     else None),
      msg_get_all = (\<lambda>h. if h = ''Project-URL'' then Some [''icon, https://example.org/icon.png'']
                         else None),
      msg_get_payload = ''# Readme from the package metadata''\<rparr>"

definition demo_metadata :: "string \<Rightarrow> message option" where
  "demo_metadata name =
     (if name = ''pollination_honeybee_radiance'' \<or> name = ''pollination_daylight_factor''
      then Some (demo_message name) else None)"

definition demo_env :: env where
  "demo_env =
     \<lparr>HOME = ''/home/user'',
      find_metadata = demo_metadata,
      find_requires = demo_requires,
      PluginConfig_parse_obj = (\<lambda>v. Inr (PluginConfig v)),
      MetaData_parse_obj = (\<lambda>d. Inr (MetaData d)),
      Plugin_validate = (\<lambda>p. None),
      Recipe_validate = (\<lambda>r. None),
      BakedRecipe_from_recipe = (\<lambda>r url fs. Inr r),
      package_resource = (\<lambda>obj readme. Inr (qb_type_of obj @ ''-1.2.2.tgz'', readme))\<rparr>"

text \<open>The same installation with a serialiser that fails.\<close>

definition failing_env :: env where
  "failing_env = demo_env\<lparr>package_resource := (\<lambda>obj readme. Inl (Error OtherError ''cannot serialize''))\<rparr>"

definition post_process :: dag where
  "post_process =
     DAG \<lparr>dag_name = ''post-process'', dag_tasks = [''convert'']\<rparr>
       (''pollination_daylight_factor'', ''0.1.0'')
       [FunctionNode (''honeybee-radiance'', ''0.5.0'')]"

definition daylight_factor :: dag where
  "daylight_factor =
     DAG \<lparr>dag_name = ''daylight-factor-entry-point'', dag_tasks = [''ray-tracing'', ''post-process'']\<rparr>
       (''pollination_daylight_factor'', ''0.1.0'')
       [FunctionNode (''honeybee-radiance'', ''0.5.0''), DagNode post_process]"

definition demo_modules :: "(string \<times> pymodule) list" where
  "demo_modules =
     [(''pollination_honeybee_radiance'',
       \<lparr>mod_pollination =
          Some [(''name'', VStr ''honeybee-radiance''),
                (''config'', VDict [(''docker'', VStr ''ladybugtools/honeybee-radiance'')])],
        mod_submodules = [[FunctionBase, FunctionClass ''ray-tracing'', OtherAttr]]\<rparr>),
      (''pollination_daylight_factor'',
       \<lparr>mod_pollination = Some [(''entry_point'', VCallable (Some daylight_factor))],
        mod_submodules = []\<rparr>),
      (''broken_recipe'',
       \<lparr>mod_pollination = Some [(''name'', VStr ''broken'')], mod_submodules = []\<rparr>)]"

text \<open>A machine on which the repository folder does not exist yet, and one where it does.\<close>

definition fresh_fs :: repo_fs where
  "fresh_fs = \<lparr>root_folder = False, plugins_folder = None, recipes_folder = None, index_file = None\<rparr>"

definition unindexed_fs :: repo_fs where
  "unindexed_fs =
     \<lparr>root_folder = True, plugins_folder = Some [(''honeybee-radiance-0.5.0.tgz'', ''bytes'')],
      recipes_folder = Some [], index_file = None\<rparr>"

definition demo_world :: world where
  "demo_world = \<lparr>modules = demo_modules, repo = fresh_fs\<rparr>"

text \<open>
  A \<^verbatim>\<open>requires.txt\<close> with a section of extras
  (\<^verbatim>\<open>honeybee-radiance==1.2.3\<close>, \<^verbatim>\<open>queenbee>=1.0\<close>, a blank line, \<^verbatim>\<open>[test]\<close>,
  \<^verbatim>\<open>pytest>=5\<close>), and one that lists the dependency without a version.
\<close>

definition extras_requires :: "string \<Rightarrow> dist_requires" where
  "extras_requires name =
     RequiresTxt [Requirement ''honeybee-radiance'' ''==1.2.3'', Requirement ''queenbee'' ''>=1.0'',
                  InvalidRequirement, Requirement ''pytest'' ''>=5'']"

definition unversioned_requires :: "string \<Rightarrow> dist_requires" where
  "unversioned_requires name = RequiresTxt [Requirement ''honeybee-radiance'' []]"

section \<open>Properties of the string functions\<close>







section \<open>Package versions\<close>




section \<open>Docker images\<close>

lemma docker_image_pinned:
  "get_requirement_version find_req find_meta pkg dep = Inr v \<Longrightarrow>
     get_docker_image_from_dependency find_req find_meta pkg dep owner =
       (Inr (''ladybugtools/'' @ dep @ '':'' @ v), [])"
  by (simp add: get_docker_image_from_dependency_def)

lemma docker_image_latest:
  "get_requirement_version find_req find_meta pkg dep = Inl e \<Longrightarrow>
   err_kind e = AssertionError \<or> err_kind e = FileNotFoundError \<Longrightarrow>
     \<exists>warning. get_docker_image_from_dependency find_req find_meta pkg dep owner =
       (Inr (''ladybugtools/'' @ dep @ '':latest''), [warning])"
  by (auto simp: get_docker_image_from_dependency_def)

text \<open>
  In the example installation \<^verbatim>\<open>honeybee-radiance\<close> is pinned, and
  \<^verbatim>\<open>ladybug-rhino\<close>, which is not a requirement, gets the \<^verbatim>\<open>latest\<close> tag and a
  warning. A requirement listed without a version is returned with an empty tag and no
  warning.
\<close>

lemma docker_image_examples:
  "get_docker_image_from_dependency demo_requires (\<lambda>_. None)
      ''pollination.honeybee_radiance'' ''honeybee-radiance'' ''ladybug-tools''
     = (Inr ''ladybugtools/honeybee-radiance:1.2.3'', [])"
  "fst (get_docker_image_from_dependency demo_requires (\<lambda>_. None)
      ''pollination.honeybee_radiance'' ''ladybug-rhino'' ''ladybug-tools'')
     = Inr ''ladybugtools/ladybug-rhino:latest''"
  "length (snd (get_docker_image_from_dependency demo_requires (\<lambda>_. None)
      ''pollination.honeybee_radiance'' ''ladybug-rhino'' ''ladybug-tools'')) = 1"
  "get_docker_image_from_dependency unversioned_requires (\<lambda>_. None)
      ''pollination-honeybee-radiance'' ''honeybee-radiance'' ''ladybug-tools''
     = (Inr ''ladybugtools/honeybee-radiance:'', [])"
  by code_simp+

lemma requirements_from_txt_invalid:
  "InvalidRequirement \<in> set req \<Longrightarrow> requirements_from_txt req acc = Inl (Error ValueError [])"
  by (induction req acc rule: requirements_from_txt.induct) auto

lemma requirements_from_metadata_unsplit:
  "length (py_split '' ('' entry) \<noteq> 2 \<Longrightarrow>
     requirements_from_metadata (entry # rest) acc = Inl (Error ValueError [])"
  by (auto split: list.splits)

text \<open>
  Claim C7 and the code. A version that cannot be pinned does not always give the
  \<^verbatim>\<open>latest\<close> tag: only \<^verbatim>\<open>FileNotFoundError\<close> and \<^verbatim>\<open>AssertionError\<close> are caught.
  When the distribution has no \<^verbatim>\<open>requires.txt\<close> and the first \<^verbatim>\<open>Requires-Dist\<close>
  entry of its metadata does not split in two at \<^verbatim>\<open>' ('\<close>, the unpacking
  \<^verbatim>\<open>name, version = package.split(' (')\<close> raises \<^verbatim>\<open>ValueError\<close>; when
  \<^verbatim>\<open>requires.txt\<close> has a line that \<^verbatim>\<open>pkg_resources.parse_requirements\<close> cannot read,
  the parser raises \<^verbatim>\<open>InvalidRequirement\<close>, a \<^verbatim>\<open>ValueError\<close>. In both cases the
  error leaves \<^verbatim>\<open>get_docker_image_from_dependency\<close>, and no warning is issued.
\<close>

theorem docker_image_value_error_escapes:
  "(\<forall>package_data entry rest.
      find_req (py_replace ''pollination.'' ''pollination_'' pkg) = NoRequiresTxt \<and>
      find_meta (py_replace ''pollination.'' ''pollination_'' pkg) = Some package_data \<and>
      msg_get_all package_data ''Requires-Dist'' = Some (entry # rest) \<and>
      length (py_split '' ('' entry) \<noteq> 2 \<longrightarrow>
        get_docker_image_from_dependency find_req find_meta pkg dep owner =
          (Inl (Error ValueError []), [])) \<and>
   (\<forall>req.
      find_req (py_replace ''pollination.'' ''pollination_'' pkg) = RequiresTxt req \<and>
      InvalidRequirement \<in> set req \<longrightarrow>
        get_docker_image_from_dependency find_req find_meta pkg dep owner =
          (Inl (Error ValueError []), []))"
proof (intro conjI allI impI)
  fix package_data entry rest
  assume h: "find_req (py_replace ''pollination.'' ''pollination_'' pkg) = NoRequiresTxt \<and>
      find_meta (py_replace ''pollination.'' ''pollination_'' pkg) = Some package_data \<and>
      msg_get_all package_data ''Requires-Dist'' = Some (entry # rest) \<and>
      length (py_split '' ('' entry) \<noteq> 2"
  then have "requirements_from_metadata (entry # rest) [] = Inl (Error ValueError [])"
    by (intro requirements_from_metadata_unsplit) simp
  with h have "get_requirement_version find_req find_meta pkg dep = Inl (Error ValueError [])"
    by (simp add: get_requirement_version_def Let_def)
  then show "get_docker_image_from_dependency find_req find_meta pkg dep owner =
          (Inl (Error ValueError []), [])"
    by (simp add: get_docker_image_from_dependency_def)
next
  fix req
  assume h: "find_req (py_replace ''pollination.'' ''pollination_'' pkg) = RequiresTxt req \<and>
      InvalidRequirement \<in> set req"
  then have "requirements_from_txt req [] = Inl (Error ValueError [])"
    by (intro requirements_from_txt_invalid) simp
  with h have "get_requirement_version find_req find_meta pkg dep = Inl (Error ValueError [])"
    by (simp add: get_requirement_version_def Let_def)
  then show "get_docker_image_from_dependency find_req find_meta pkg dep owner =
          (Inl (Error ValueError []), [])"
    by (simp add: get_docker_image_from_dependency_def)
qed

text \<open>
  The theorem for a package without \<^verbatim>\<open>requires.txt\<close> whose metadata has
  \<^verbatim>\<open>Requires-Dist: honeybee-radiance\<close>, and for a package whose \<^verbatim>\<open>requires.txt\<close>
  has a section of extras.
\<close>

theorem docker_image_value_error_escapes_witness:
  "get_docker_image_from_dependency (\<lambda>_. NoRequiresTxt)
      (\<lambda>_. Some (requires_message [''honeybee-radiance'']))
      ''pollination-honeybee-radiance'' ''honeybee-radiance'' ''ladybug-tools''
     = (Inl (Error ValueError []), [])
   \<and> get_docker_image_from_dependency extras_requires (\<lambda>_. None)
      ''pollination-honeybee-radiance'' ''ladybug-rhino'' ''ladybug-tools''
     = (Inl (Error ValueError []), [])"
proof -
  have g: "msg_get_all (requires_message [''honeybee-radiance'']) ''Requires-Dist''
             = Some [''honeybee-radiance'']"
    by (simp add: requires_message_def)
  have l: "length (py_split '' ('' ''honeybee-radiance'') \<noteq> 2"
    by code_simp
  have i: "InvalidRequirement \<in> set [Requirement ''honeybee-radiance'' ''==1.2.3'',
             Requirement ''queenbee'' ''>=1.0'', InvalidRequirement, Requirement ''pytest'' ''>=5'']"
    by simp
  from docker_image_value_error_escapes[of "\<lambda>_. NoRequiresTxt" "''pollination-honeybee-radiance''"
      "\<lambda>_. Some (requires_message [''honeybee-radiance''])" "''honeybee-radiance''"
      "''ladybug-tools''"] g l
  have 1: "get_docker_image_from_dependency (\<lambda>_. NoRequiresTxt)
      (\<lambda>_. Some (requires_message [''honeybee-radiance'']))
      ''pollination-honeybee-radiance'' ''honeybee-radiance'' ''ladybug-tools''
     = (Inl (Error ValueError []), [])"
    by blast
  from docker_image_value_error_escapes[of extras_requires "''pollination-honeybee-radiance''"
      "\<lambda>_. None" "''ladybug-rhino''" "''ladybug-tools''"] i
  have 2: "get_docker_image_from_dependency extras_requires (\<lambda>_. None)
      ''pollination-honeybee-radiance'' ''ladybug-rhino'' ''ladybug-tools''
     = (Inl (Error ValueError []), [])"
    by (simp add: extras_requires_def)
  show ?thesis by (rule conjI[OF 1 2])
qed

section \<open>Initialising the repository\<close>

lemma init_repo_result:
  "init_repo E fs =
     (Inr (repository_path E),
      \<lparr>root_folder = True,
       plugins_folder = mkdir (plugins_folder fs),
       recipes_folder = mkdir (recipes_folder fs),
       index_file = (case index_file fs of
                       None \<Rightarrow> Some \<lparr>index_plugin = map fst (the (mkdir (plugins_folder fs))),
                                      index_recipe = map fst (the (mkdir (recipes_folder fs)))\<rparr>
                     | Some i \<Rightarrow> Some i)\<rparr>)"
  by (cases fs) (auto simp: init_repo_def from_folder_def mkdir_def Let_def split: option.splits)

lemma mkdir_idem: "mkdir (mkdir f) = mkdir f"
  by (simp add: mkdir_def split: option.splits)

lemma init_repo_idem: "init_repo E (snd (init_repo E fs)) = init_repo E fs"
  by (simp add: init_repo_result mkdir_idem split: option.splits)

text \<open>
  Claim C8, as the code has it. \<^verbatim>\<open>_init_repo\<close> always returns the repository path and
  leaves the folder, both stores and the index file in place. Stores that existed keep
  their files and an index file that existed is kept as it is. An index file is written
  only when there was none: it is the index generated from the stores, which is the empty
  index when the stores hold no file. Running \<^verbatim>\<open>_init_repo\<close> again returns the same path
  and changes nothing.
\<close>

theorem init_repo_idempotent:
  "\<exists>fs' i. init_repo E fs = (Inr (repository_path E), fs')
     \<and> root_folder fs' \<and> plugins_folder fs' \<noteq> None \<and> recipes_folder fs' \<noteq> None
     \<and> index_file fs' = Some i
     \<and> (\<forall>ps. plugins_folder fs = Some ps \<longrightarrow> plugins_folder fs' = Some ps)
     \<and> (\<forall>rs. recipes_folder fs = Some rs \<longrightarrow> recipes_folder fs' = Some rs)
     \<and> (\<forall>j. index_file fs = Some j \<longrightarrow> i = j)
     \<and> (index_file fs = None \<longrightarrow> from_folder fs' = Inr i)
     \<and> (index_file fs = None \<and> plugins_folder fs \<in> {None, Some []}
          \<and> recipes_folder fs \<in> {None, Some []} \<longrightarrow> i = \<lparr>index_plugin = [], index_recipe = []\<rparr>)
     \<and> init_repo E fs' = (Inr (repository_path E), fs')"
proof -
  obtain fs' where r: "init_repo E fs = (Inr (repository_path E), fs')"
    by (simp add: init_repo_result)
  then have fs': "fs' = snd (init_repo E fs)" by simp
  have again: "init_repo E fs' = (Inr (repository_path E), fs')"
    unfolding fs' init_repo_idem using r by simp
  show ?thesis
    apply (rule exI[of _ fs'])
    apply (rule exI[of _ "the (index_file fs')"])
    apply (intro conjI)
              apply (rule r)
    using again
             apply (auto simp: fs' init_repo_result from_folder_def mkdir_def split: option.splits)
    done
qed

text \<open>The theorem on a machine without the repository folder.\<close>

theorem init_repo_idempotent_witness:
  "init_repo demo_env fresh_fs =
     (Inr ''/home/user/.queenbee/pollination-dsl'',
      \<lparr>root_folder = True, plugins_folder = Some [], recipes_folder = Some [],
       index_file = Some \<lparr>index_plugin = [], index_recipe = []\<rparr>\<rparr>)
   \<and> init_repo demo_env (snd (init_repo demo_env fresh_fs)) = init_repo demo_env fresh_fs"
proof -
  have p: "repository_path demo_env = ''/home/user/.queenbee/pollination-dsl''"
    by (simp add: repository_path_def demo_env_def)
  from init_repo_idempotent[of demo_env fresh_fs] obtain fs' i where
    h: "init_repo demo_env fresh_fs = (Inr (repository_path demo_env), fs')"
       "root_folder fs'" "index_file fs' = Some i"
       "i = \<lparr>index_plugin = [], index_recipe = []\<rparr>"
       "init_repo demo_env fs' = (Inr (repository_path demo_env), fs')"
    by (auto simp: fresh_fs_def)
  have "plugins_folder fs' = Some []" "recipes_folder fs' = Some []"
    using h(1) by (auto simp: init_repo_result fresh_fs_def mkdir_def)
  with h have "fs' = \<lparr>root_folder = True, plugins_folder = Some [], recipes_folder = Some [],
       index_file = Some \<lparr>index_plugin = [], index_recipe = []\<rparr>\<rparr>"
    by (cases fs') simp
  with h(1,5) show ?thesis by (simp add: p)
qed

text \<open>
  The index that \<^verbatim>\<open>_init_repo\<close> creates is not always empty: when the stores hold an
  artifact and the index file is missing, the new index lists the artifact.
\<close>

theorem init_repo_counterexample:
  "index_file unindexed_fs = None
   \<and> index_file (snd (init_repo demo_env unindexed_fs))
       = Some \<lparr>index_plugin = [''honeybee-radiance-0.5.0.tgz''], index_recipe = []\<rparr>
   \<and> index_file (snd (init_repo demo_env unindexed_fs))
       \<noteq> Some \<lparr>index_plugin = [], index_recipe = []\<rparr>"
  by (simp add: init_repo_def from_folder_def mkdir_def unindexed_fs_def Let_def)

section \<open>Modules and their dictionaries\<close>

lemma call_entry_point_Some:
  "call_entry_point qb_info = Inr r \<longleftrightarrow> map_of qb_info ''entry_point'' = Some (VCallable r)"
  by (auto simp: call_entry_point_def split: option.splits pval.splits)

lemma repo_set_pollination: "repo (set_pollination w m d) = repo w"
  by (simp add: set_pollination_def)

lemma modules_set_pollination:
  "map_of (modules (set_pollination w m d)) k = None \<longleftrightarrow> map_of (modules w) k = None"
  by (simp add: set_pollination_def map_of_map_entry split: option.splits)

lemma import_module_set_pollination:
  "import_module (set_pollination w m d) n = import_module w n"
  by (simp add: import_module_def modules_set_pollination Let_def)

lemma pollination_of_set_pollination:
  "pollination_of w m = Some q \<Longrightarrow> pollination_of (set_pollination w m d) m = Some d"
  by (auto simp: pollination_of_def set_pollination_def map_of_map_entry split: option.splits)

lemma get_package_data_keys:
  "get_package_data fm n = Inr pd \<Longrightarrow>
     map fst pd = [''name'', ''description'', ''home'', ''tag'', ''keywords'', ''maintainers'',
                   ''license'', ''icon'']"
  by (auto simp: get_package_data_def split: option.splits sum.splits)

lemma merge_entry_None:
  "map_of q k = None \<Longrightarrow> k \<noteq> fst kv \<Longrightarrow> map_of (merge_entry q kv) k = None"
  by (simp add: merge_entry_def update_conv')

lemma foldl_merge_None:
  "map_of q k = None \<Longrightarrow> k \<notin> fst ` set pd \<Longrightarrow> map_of (foldl merge_entry q pd) k = None"
  by (induction pd arbitrary: q) (auto simp: merge_entry_None)

lemma get_meta_data_frame:
  assumes "get_meta_data E w m t = (r, w')"
  shows "w' = w \<or> (\<exists>d. w' = set_pollination w m d)"
  using assms
  by (auto simp: get_meta_data_def Let_def split: option.splits sum.splits if_splits)

lemma get_meta_data_repo: "get_meta_data E w m t = (r, w') \<Longrightarrow> repo w' = repo w"
  using get_meta_data_frame[of E w m t r w'] by (auto simp: repo_set_pollination)

lemma get_meta_data_import:
  "get_meta_data E w m t = (r, w') \<Longrightarrow> import_module w' n = import_module w n"
  using get_meta_data_frame[of E w m t r w'] by (auto simp: import_module_set_pollination)

lemma get_meta_data_success:
  assumes "get_meta_data E w m t = (Inr md, w')"
  shows "\<exists>q'. pollination_of w' m = Some q'
           \<and> map_of q' (if t = ''plugin'' then ''config'' else ''entry_point'') = None
           \<and> MetaData_parse_obj E q' = Inr md"
proof -
  from assms obtain q where q: "pollination_of w m = Some q"
    by (auto simp: get_meta_data_def split: option.splits)
  from assms q obtain pd where pd: "get_package_data (find_metadata E) m = Inr pd"
    by (auto simp: get_meta_data_def split: sum.splits)
  let ?key = "if t = ''plugin'' then ''config'' else ''entry_point''"
  let ?q' = "foldl merge_entry (AList.delete ?key q) pd"
  from assms q pd have w': "w' = set_pollination w m ?q'" and p: "MetaData_parse_obj E ?q' = Inr md"
    by (auto simp: get_meta_data_def Let_def split: if_splits)
  have "fst ` set pd = set (map fst pd)" by simp
  then have "?key \<notin> fst ` set pd"
    unfolding get_package_data_keys[OF pd] by simp
  then have "map_of ?q' ?key = None"
    by (intro foldl_merge_None) (simp add: delete_conv')
  with q w' p show ?thesis
    by (auto simp: pollination_of_set_pollination simp del: foldl_Cons)
qed

lemma load_plugin_frame:
  assumes "load_plugin E w m = (r, w')"
  shows "repo w' = repo w \<and> import_module w' n = import_module w n"
proof (cases "w' = w")
  case True
  then show ?thesis by simp
next
  case False
  with assms obtain r0 where "get_meta_data E w m ''plugin'' = (r0, w')"
    by (auto simp: load_plugin_def Let_def split: option.splits sum.splits prod.splits)
  then show ?thesis by (simp add: get_meta_data_repo get_meta_data_import)
qed

lemma load_plugin_success:
  assumes "load_plugin E w m = (Inr p, w')"
  shows "\<exists>md. get_meta_data E w m ''plugin'' = (Inr md, w')"
  using assms
  by (auto simp: load_plugin_def Let_def split: option.splits sum.splits prod.splits)

section \<open>Assembling a recipe\<close>

lemma load_recipe_success:
  assumes "load_recipe E w module baked = (Inr obj, w')"
  shows "\<exists>qb_info main_dag metadata w1.
           pollination_of w module = Some qb_info
         \<and> map_of qb_info ''entry_point'' = Some (VCallable (Some main_dag))
         \<and> get_meta_data E w module ''recipe'' = (Inr metadata, w1)
         \<and> w' = w1\<lparr>repo := snd (init_repo E (repo w1))\<rparr>
         \<and> Recipe_validate E (build_recipe metadata main_dag (repository_path E)) = None
         \<and> (if baked
             then \<exists>b. BakedRecipe_from_recipe E (build_recipe metadata main_dag (repository_path E))
                  (''file:///'' @ repository_path E) (repo w') = Inr b \<and> obj = QBakedRecipe b
             else obj = QRecipe (build_recipe metadata main_dag (repository_path E)))"
proof -
  from assms obtain qb_info where q: "pollination_of w module = Some qb_info"
    by (auto simp: load_recipe_def split: option.splits)
  from assms q obtain main_dag where c: "call_entry_point qb_info = Inr (Some main_dag)"
    by (auto simp: load_recipe_def split: option.splits sum.splits)
  from assms q c obtain metadata w1 where
    m: "get_meta_data E w module ''recipe'' = (Inr metadata, w1)"
    by (auto simp: load_recipe_def split: prod.splits sum.splits)
  obtain fs where i: "init_repo E (repo w1) = (Inr (repository_path E), fs)"
    by (simp add: init_repo_result)
  from assms q c m i have
    v: "Recipe_validate E (build_recipe metadata main_dag (repository_path E)) = None"
    by (auto simp: load_recipe_def Let_def split: option.splits)
  from assms q c m i v have w': "w' = w1\<lparr>repo := fs\<rparr>"
    by (auto simp: load_recipe_def Let_def split: if_splits sum.splits)
  from assms q c m i v have o: "if baked
             then \<exists>b. BakedRecipe_from_recipe E (build_recipe metadata main_dag (repository_path E))
                  (''file:///'' @ repository_path E) fs = Inr b \<and> obj = QBakedRecipe b
             else obj = QRecipe (build_recipe metadata main_dag (repository_path E))"
    by (auto simp: load_recipe_def Let_def split: if_splits sum.splits)
  show ?thesis
    using q c m i v w' o by (auto simp: call_entry_point_Some)
qed

text \<open>
  Claim C3. When \<^verbatim>\<open>_load_recipe\<close> returns, the recipe it has built has as its flow the
  queenbee DAG of the entry point, renamed to \<^verbatim>\<open>main\<close>, followed by the queenbee DAGs of
  the collected nested DAGs in collection order. That recipe is the result, or, when a
  baked recipe is asked for, the recipe handed to \<^verbatim>\<open>BakedRecipe.from_recipe\<close>.
\<close>

theorem load_recipe_flow:
  assumes "load_recipe E w module baked = (Inr obj, w')"
  shows "\<exists>qb_info main_dag r.
           pollination_of w module = Some qb_info
         \<and> map_of qb_info ''entry_point'' = Some (VCallable (Some main_dag))
         \<and> recipe_flow r = (dag_queenbee main_dag)\<lparr>dag_name := ''main''\<rparr>
                            # map dag_queenbee (dep_dag (collect main_dag))
         \<and> dag_name (hd (recipe_flow r)) = ''main''
         \<and> (if baked
             then \<exists>b. BakedRecipe_from_recipe E r (''file:///'' @ repository_path E) (repo w') = Inr b
                      \<and> obj = QBakedRecipe b
             else obj = QRecipe r)"
proof -
  from load_recipe_success[OF assms] obtain qb_info main_dag metadata where
    h: "pollination_of w module = Some qb_info"
       "map_of qb_info ''entry_point'' = Some (VCallable (Some main_dag))"
       "if baked
             then \<exists>b. BakedRecipe_from_recipe E (build_recipe metadata main_dag (repository_path E))
                  (''file:///'' @ repository_path E) (repo w') = Inr b \<and> obj = QBakedRecipe b
             else obj = QRecipe (build_recipe metadata main_dag (repository_path E))"
    by blast
  let ?r = "build_recipe metadata main_dag (repository_path E)"
  have f: "recipe_flow ?r = (dag_queenbee main_dag)\<lparr>dag_name := ''main''\<rparr>
                            # map dag_queenbee (dep_dag (collect main_dag))"
    by (simp add: build_recipe_def Let_def)
  show ?thesis
    apply (rule exI[of _ qb_info], rule exI[of _ main_dag], rule exI[of _ ?r])
    using h f by simp
qed

lemma demo_load_recipe:
  "fst (load_recipe demo_env demo_world ''pollination_daylight_factor'' False) =
     Inr (QRecipe
       \<lparr>recipe_metadata =
          MetaData [(''name'', VStr ''pollination_daylight_factor''),
                    (''description'', VStr ''An example package.''),
                    (''tag'', VStr ''1.2.2''), (''maintainers'', VList []),
                    (''license'', VDict [(''name'', VNone), (''url'', VNone)]),
                    (''icon'', VStr ''https://example.org/icon.png'')],
        recipe_dependencies =
          [\<lparr>dependency_kind = DependencyKind_plugin, dependency_name = ''honeybee-radiance'',
            dependency_tag = ''0.5.0'',
            dependency_source = ''file:///home/user/.queenbee/pollination-dsl''\<rparr>],
        recipe_flow =
          [\<lparr>dag_name = ''main'', dag_tasks = [''ray-tracing'', ''post-process'']\<rparr>,
           \<lparr>dag_name = ''post-process'', dag_tasks = [''convert'']\<rparr>]\<rparr>)"
  by code_simp

text \<open>The theorem for the example recipe package.\<close>

theorem load_recipe_flow_witness:
  "\<exists>r. fst (load_recipe demo_env demo_world ''pollination_daylight_factor'' False) = Inr (QRecipe r)
     \<and> recipe_flow r = [\<lparr>dag_name = ''main'', dag_tasks = [''ray-tracing'', ''post-process'']\<rparr>,
                        \<lparr>dag_name = ''post-process'', dag_tasks = [''convert'']\<rparr>]"
proof -
  obtain obj w' where l: "load_recipe demo_env demo_world ''pollination_daylight_factor'' False = (Inr obj, w')"
    using demo_load_recipe by (cases "load_recipe demo_env demo_world ''pollination_daylight_factor'' False") auto
  from load_recipe_flow[OF l] obtain qb_info main_dag r where
    h: "pollination_of demo_world ''pollination_daylight_factor'' = Some qb_info"
       "map_of qb_info ''entry_point'' = Some (VCallable (Some main_dag))"
       "recipe_flow r = (dag_queenbee main_dag)\<lparr>dag_name := ''main''\<rparr>
                            # map dag_queenbee (dep_dag (collect main_dag))"
       "obj = QRecipe r"
    by auto
  have "pollination_of demo_world ''pollination_daylight_factor''
          = Some [(''entry_point'', VCallable (Some daylight_factor))]"
    by (simp add: pollination_of_def demo_world_def demo_modules_def)
  with h(1,2) have "main_dag = daylight_factor" by auto
  moreover have "(dag_queenbee daylight_factor)\<lparr>dag_name := ''main''\<rparr>
                   # map dag_queenbee (dep_dag (collect daylight_factor))
       = [\<lparr>dag_name = ''main'', dag_tasks = [''ray-tracing'', ''post-process'']\<rparr>,
          \<lparr>dag_name = ''post-process'', dag_tasks = [''convert'']\<rparr>]"
    by code_simp
  ultimately show ?thesis using h(3,4) l by simp
qed

text \<open>
  Claim C4 and the code. A package whose dictionary has no \<^verbatim>\<open>entry_point\<close> key does not
  reach the assertion that names the missing entry point: \<^verbatim>\<open>None\<close> is called first,
  which is a \<^verbatim>\<open>TypeError\<close>. The assertion is only reached, and then fails with its
  message, when the entry point is there and calling it returns a falsy value.
\<close>

theorem load_recipe_missing_entry_point:
  assumes "pollination_of w module = Some qb_info"
  shows "(map_of qb_info ''entry_point'' = None \<longrightarrow>
            load_recipe E w module baked =
              (Inl (Error TypeError (quote @ ''NoneType'' @ quote @ '' object is not callable'')), w))
       \<and> (map_of qb_info ''entry_point'' = Some (VCallable None) \<longrightarrow>
            load_recipe E w module baked =
              (Inl (Error AssertionError
                      (module @ '' __pollination__ info is missing the enetry_point key.'')), w))"
  using assms
  by (simp add: load_recipe_def call_entry_point_def type_name_def)

text \<open>The package \<^verbatim>\<open>broken-recipe\<close> of the example has neither key.\<close>

theorem load_recipe_missing_entry_point_witness:
  "load_recipe demo_env demo_world ''broken_recipe'' False =
     (Inl (Error TypeError (quote @ ''NoneType'' @ quote @ '' object is not callable'')), demo_world)
   \<and> load demo_env demo_world ''broken-recipe'' False =
     (Inl (Error TypeError (quote @ ''NoneType'' @ quote @ '' object is not callable'')), demo_world)"
proof -
  have p: "pollination_of demo_world ''broken_recipe'' = Some [(''name'', VStr ''broken'')]"
    by (simp add: pollination_of_def demo_world_def demo_modules_def)
  have i: "import_module demo_world ''broken-recipe'' = Inr ''broken_recipe''"
    by code_simp
  from load_recipe_missing_entry_point[OF p, of demo_env False]
  have 1: "load_recipe demo_env demo_world ''broken_recipe'' False =
     (Inl (Error TypeError (quote @ ''NoneType'' @ quote @ '' object is not callable'')), demo_world)"
    by simp
  then show ?thesis using p i by (simp add: load_def)
qed

section \<open>Dependencies of a recipe\<close>








section \<open>Loading a package twice\<close>

text \<open>
  Claim C10. When \<^verbatim>\<open>_get_meta_data\<close> returns, the module's dictionary no longer has
  the key \<^verbatim>\<open>config\<close> (for a plugin) or \<^verbatim>\<open>entry_point\<close> (for a recipe). So after a
  package was loaded as a plugin, its dictionary has no \<^verbatim>\<open>config\<close> key, and loading it
  again is \<^verbatim>\<open>_load_recipe\<close> on the module.
\<close>

theorem load_plugin_consumes_config:
  "(\<forall>md w'. get_meta_data E w module package_type = (Inr md, w') \<longrightarrow>
      (\<exists>qb_info'. pollination_of w' module = Some qb_info'
         \<and> map_of qb_info' (if package_type = ''plugin'' then ''config'' else ''entry_point'') = None))
   \<and> (\<forall>p w'. load E w package_name baked = (Inr (QPlugin p), w') \<longrightarrow>
      (\<exists>m qb_info'. import_module w' package_name = Inr m
         \<and> pollination_of w' m = Some qb_info'
         \<and> map_of qb_info' ''config'' = None
         \<and> (\<forall>baked'. load E w' package_name baked' = load_recipe E w' m baked')))"
proof (intro conjI allI impI)
  fix md w' assume "get_meta_data E w module package_type = (Inr md, w')"
  from get_meta_data_success[OF this]
  show "\<exists>qb_info'. pollination_of w' module = Some qb_info'
         \<and> map_of qb_info' (if package_type = ''plugin'' then ''config'' else ''entry_point'') = None"
    by blast
next
  fix p w' assume l: "load E w package_name baked = (Inr (QPlugin p), w')"
  then obtain m where m: "import_module w package_name = Inr m"
    by (auto simp: load_def split: sum.splits)
  from l m obtain q where q: "pollination_of w m = Some q"
    by (auto simp: load_def split: option.splits)
  have c: "map_of q ''config'' \<noteq> None"
  proof
    assume "map_of q ''config'' = None"
    with l m q have "load_recipe E w m baked = (Inr (QPlugin p), w')"
      by (simp add: load_def)
    from load_recipe_success[OF this] show False
      by (auto split: if_splits)
  qed
  with l m q have lp: "load_plugin E w m = (Inr p, w')"
    by (auto simp: load_def split: prod.splits sum.splits)
  from load_plugin_success[OF lp] obtain md where
    g: "get_meta_data E w m ''plugin'' = (Inr md, w')" by blast
  from get_meta_data_success[OF g] obtain q' where
    q': "pollination_of w' m = Some q'" "map_of q' ''config'' = None"
    by auto
  have i: "import_module w' package_name = Inr m"
    using get_meta_data_import[OF g] m by simp
  have "load E w' package_name baked' = load_recipe E w' m baked'" for baked'
    using i q' by (simp add: load_def)
  with i q' show "\<exists>m qb_info'. import_module w' package_name = Inr m
         \<and> pollination_of w' m = Some qb_info'
         \<and> map_of qb_info' ''config'' = None
         \<and> (\<forall>baked'. load E w' package_name baked' = load_recipe E w' m baked')"
    by blast
qed

lemma demo_load_plugin:
  "fst (load demo_env demo_world ''pollination-honeybee-radiance'' False) =
     Inr (QPlugin
       \<lparr>plugin_config = PluginConfig (VDict [(''docker'', VStr ''ladybugtools/honeybee-radiance'')]),
        plugin_metadata =
          MetaData [(''name'', VStr ''honeybee-radiance''),
                    (''description'', VStr ''An example package.''),
                    (''tag'', VStr ''1.2.2''), (''maintainers'', VList []),
                    (''license'', VDict [(''name'', VNone), (''url'', VNone)]),
                    (''icon'', VStr ''https://example.org/icon.png'')],
        plugin_functions = [''ray-tracing'']\<rparr>)"
  by code_simp

text \<open>
  In the example the plugin package loads once; the second load takes the recipe branch
  and fails there, since the dictionary has no entry point either.
\<close>

theorem load_plugin_consumes_config_witness:
  "\<exists>p w'. load demo_env demo_world ''pollination-honeybee-radiance'' False = (Inr (QPlugin p), w')
     \<and> load demo_env w' ''pollination-honeybee-radiance'' False
         = load_recipe demo_env w' ''pollination_honeybee_radiance'' False
     \<and> fst (load demo_env w' ''pollination-honeybee-radiance'' False)
         = Inl (Error TypeError (quote @ ''NoneType'' @ quote @ '' object is not callable''))"
proof -
  from demo_load_plugin obtain p w' where
    l: "load demo_env demo_world ''pollination-honeybee-radiance'' False = (Inr (QPlugin p), w')"
    by (cases "load demo_env demo_world ''pollination-honeybee-radiance'' False") auto
  from load_plugin_consumes_config[of demo_env demo_world "[]" "[]"
      "''pollination-honeybee-radiance''" False] l
  obtain m q' where h: "import_module w' ''pollination-honeybee-radiance'' = Inr m"
    "pollination_of w' m = Some q'" "map_of q' ''config'' = None"
    "\<forall>baked'. load demo_env w' ''pollination-honeybee-radiance'' baked' = load_recipe demo_env w' m baked'"
    by blast
  have "import_module demo_world ''pollination-honeybee-radiance'' = Inr ''pollination_honeybee_radiance''"
    by code_simp
  moreover have "import_module w' ''pollination-honeybee-radiance''
      = import_module demo_world ''pollination-honeybee-radiance''"
    using l by (auto simp: load_def load_plugin_frame split: sum.splits option.splits if_splits prod.splits
        dest: load_recipe_success)
  ultimately have m: "m = ''pollination_honeybee_radiance''" using h(1) by simp
  have w': "w' = snd (load demo_env demo_world ''pollination-honeybee-radiance'' False)"
    using l by simp
  have e: "fst (load_recipe demo_env w' ''pollination_honeybee_radiance'' False)
         = Inl (Error TypeError (quote @ ''NoneType'' @ quote @ '' object is not callable''))"
    unfolding w' by code_simp
  show ?thesis using l h(4) m e by auto
qed

section \<open>Packaging\<close>

lemma load_recipe_repo:
  assumes "load_recipe E w m b = (r, w')"
  shows "repo w' = repo w \<or> repo w' = snd (init_repo E (repo w))"
proof (cases "w' = w")
  case True
  then show ?thesis by simp
next
  case False
  with assms obtain q where q: "pollination_of w m = Some q"
    by (auto simp: load_recipe_def split: option.splits)
  from assms q False obtain main_dag where c: "call_entry_point q = Inr (Some main_dag)"
    by (auto simp: load_recipe_def split: option.splits sum.splits)
  obtain r0 w1 where g: "get_meta_data E w m ''recipe'' = (r0, w1)"
    by (cases "get_meta_data E w m ''recipe''") auto
  then have w1: "repo w1 = repo w" by (rule get_meta_data_repo)
  obtain fs where i: "init_repo E (repo w1) = (Inr (repository_path E), fs)"
    by (simp add: init_repo_result)
  then have fs: "fs = snd (init_repo E (repo w))" using w1 by simp
  from assms q c g i have "w' = w1 \<or> w' = w1\<lparr>repo := fs\<rparr>"
    by (auto simp: load_recipe_def Let_def split: sum.splits option.splits if_splits)
  then show ?thesis using w1 fs by auto
qed

lemma load_repo:
  assumes "load E w n b = (r, w')"
  shows "repo w' = repo w \<or> repo w' = snd (init_repo E (repo w))"
proof (cases "w' = w")
  case True
  then show ?thesis by simp
next
  case False
  with assms obtain m where m: "import_module w n = Inr m"
    by (auto simp: load_def split: sum.splits)
  from assms m False obtain q where q: "pollination_of w m = Some q"
    by (auto simp: load_def split: option.splits)
  show ?thesis
  proof (cases "map_of q ''config'' = None")
    case True
    with assms m q have "load_recipe E w m b = (r, w')" by (simp add: load_def)
    then show ?thesis by (rule load_recipe_repo)
  next
    case False
    obtain r0 w0 where l: "load_plugin E w m = (r0, w0)"
      by (cases "load_plugin E w m") auto
    with assms m q False have "w' = w0"
      by (auto simp: load_def split: sum.splits)
    with load_plugin_frame[OF l] show ?thesis by simp
  qed
qed

lemma load_initialised_repo:
  assumes "load E (w\<lparr>repo := snd (init_repo E fs)\<rparr>) n b = (r, w')"
  shows "repo w' = snd (init_repo E fs)"
  using load_repo[OF assms] by (auto simp: init_repo_idem)

lemma init_repo_initialised:
  assumes "root_folder fs" "plugins_folder fs \<noteq> None" "recipes_folder fs \<noteq> None"
    "index_file fs \<noteq> None"
  shows "snd (init_repo E fs) = fs"
  using assms by (cases fs) (auto simp: init_repo_result mkdir_def)

lemma package_failure:
  assumes "load E (w\<lparr>repo := snd (init_repo E (repo w))\<rparr>) package_name False = (Inr qb_obj, w1)"
    and "try_package_resource E qb_obj package_name = Inl cause"
  shows "package E w package_name readme =
           (Inl (Error ValueError
                   (''Failed to package '' @ package_name @ '' '' @ qb_type_of qb_obj
                    @ newline @ '' '' @ err_msg cause)), w1)"
proof -
  define fs where "fs = snd (init_repo E (repo w))"
  have i: "init_repo E (repo w) = (Inr (repository_path E), fs)"
    by (simp add: fs_def init_repo_result)
  from assms(1) have l: "load E (w\<lparr>repo := fs\<rparr>) package_name False = (Inr qb_obj, w1)"
    by (simp add: fs_def)
  show ?thesis
    using i l assms(2) by (simp add: package_def Let_def)
qed

lemma package_success:
  assumes "package E w package_name readme = (Inr (), w')"
  shows "\<exists>qb_obj w1 readme_text url bytes fs2 repo_index.
           load E (w\<lparr>repo := snd (init_repo E (repo w))\<rparr>) package_name False = (Inr qb_obj, w1)
         \<and> get_package_readme (find_metadata E) package_name = Inr readme_text
         \<and> package_resource E qb_obj readme_text = Inr (url, bytes)
         \<and> write_bytes (repo w1) (qb_type_of qb_obj) url bytes = Inr fs2
         \<and> from_folder fs2 = Inr repo_index
         \<and> w' = w1\<lparr>repo := fs2\<lparr>index_file := Some repo_index\<rparr>\<rparr>"
proof -
  obtain fs where i: "init_repo E (repo w) = (Inr (repository_path E), fs)"
    by (simp add: init_repo_result)
  then have fs: "fs = snd (init_repo E (repo w))" by simp
  from assms i obtain qb_obj w1 where l: "load E (w\<lparr>repo := fs\<rparr>) package_name False = (Inr qb_obj, w1)"
    by (auto simp: package_def split: prod.splits sum.splits)
  from assms i l obtain url bytes where
    t: "try_package_resource E qb_obj package_name = Inr (url, bytes)"
    by (auto simp: package_def Let_def split: sum.splits)
  then obtain readme_text where
    x: "get_package_readme (find_metadata E) package_name = Inr readme_text"
       "package_resource E qb_obj readme_text = Inr (url, bytes)"
    by (auto simp: try_package_resource_def split: sum.splits)
  from assms i l t obtain fs2 where
    wb: "write_bytes (repo w1) (qb_type_of qb_obj) url bytes = Inr fs2"
    by (auto simp: package_def Let_def split: sum.splits)
  from assms i l t wb obtain repo_index where
    f: "from_folder fs2 = Inr repo_index" "w' = w1\<lparr>repo := fs2\<lparr>index_file := Some repo_index\<rparr>\<rparr>"
    by (auto simp: package_def Let_def split: sum.splits)
  show ?thesis using l x wb f unfolding fs by blast
qed

lemma from_folder_index_file: "from_folder (fs\<lparr>index_file := i\<rparr>) = from_folder fs"
  by (simp add: from_folder_def split: option.splits)

text \<open>
  Claim C1. After \<^verbatim>\<open>package\<close> has returned, the index file holds the index generated
  from the folder as it is then, with the new artifact in it: a file is listed in the
  index of a store exactly when it is present in that store. The same holds for the index
  that \<^verbatim>\<open>_init_repo\<close> writes when there was none.
\<close>

theorem package_reindexes:
  "(\<forall>w'. package E w package_name readme = (Inr (), w') \<longrightarrow>
      (\<exists>ps rs i. plugins_folder (repo w') = Some ps \<and> recipes_folder (repo w') = Some rs
         \<and> index_file (repo w') = Some i \<and> from_folder (repo w') = Inr i
         \<and> (\<forall>f. f \<in> set (index_plugin i) \<longleftrightarrow> map_of ps f \<noteq> None)
         \<and> (\<forall>f. f \<in> set (index_recipe i) \<longleftrightarrow> map_of rs f \<noteq> None)))
   \<and> (\<forall>fs'. index_file fs = None \<and> snd (init_repo E fs) = fs' \<longrightarrow>
      (\<exists>ps rs i. plugins_folder fs' = Some ps \<and> recipes_folder fs' = Some rs
         \<and> index_file fs' = Some i \<and> from_folder fs' = Inr i
         \<and> (\<forall>f. f \<in> set (index_plugin i) \<longleftrightarrow> map_of ps f \<noteq> None)
         \<and> (\<forall>f. f \<in> set (index_recipe i) \<longleftrightarrow> map_of rs f \<noteq> None)))"
proof (intro conjI allI impI)
  fix w' assume "package E w package_name readme = (Inr (), w')"
  from package_success[OF this] obtain w1 fs2 repo_index where
    f: "from_folder fs2 = Inr repo_index" and w': "w' = w1\<lparr>repo := fs2\<lparr>index_file := Some repo_index\<rparr>\<rparr>"
    by blast
  from f obtain ps rs where s: "plugins_folder fs2 = Some ps" "recipes_folder fs2 = Some rs"
    "repo_index = \<lparr>index_plugin = map fst ps, index_recipe = map fst rs\<rparr>"
    by (auto simp: from_folder_def split: option.splits)
  have "from_folder (repo w') = Inr repo_index"
    using f by (simp add: w' from_folder_index_file)
  then show "\<exists>ps rs i. plugins_folder (repo w') = Some ps \<and> recipes_folder (repo w') = Some rs
         \<and> index_file (repo w') = Some i \<and> from_folder (repo w') = Inr i
         \<and> (\<forall>f. f \<in> set (index_plugin i) \<longleftrightarrow> map_of ps f \<noteq> None)
         \<and> (\<forall>f. f \<in> set (index_recipe i) \<longleftrightarrow> map_of rs f \<noteq> None)"
    using s by (auto simp: w' map_of_eq_None_iff)
next
  fix fs' assume "index_file fs = None \<and> snd (init_repo E fs) = fs'"
  then show "\<exists>ps rs i. plugins_folder fs' = Some ps \<and> recipes_folder fs' = Some rs
         \<and> index_file fs' = Some i \<and> from_folder fs' = Inr i
         \<and> (\<forall>f. f \<in> set (index_plugin i) \<longleftrightarrow> map_of ps f \<noteq> None)
         \<and> (\<forall>f. f \<in> set (index_recipe i) \<longleftrightarrow> map_of rs f \<noteq> None)"
    by (auto simp: init_repo_result from_folder_def mkdir_def map_of_eq_None_iff
        split: option.splits)
qed

lemma demo_package:
  "package demo_env demo_world ''pollination-honeybee-radiance'' (Some ''readme of the caller'') =
     (Inr (),
      \<lparr>modules =
         [(''pollination_honeybee_radiance'',
           \<lparr>mod_pollination =
              Some [(''name'', VStr ''honeybee-radiance''),
                    (''description'', VStr ''An example package.''),
                    (''tag'', VStr ''1.2.2''), (''maintainers'', VList []),
                    (''license'', VDict [(''name'', VNone), (''url'', VNone)]),
                    (''icon'', VStr ''https://example.org/icon.png'')],
            mod_submodules = [[FunctionBase, FunctionClass ''ray-tracing'', OtherAttr]]\<rparr>),
          (''pollination_daylight_factor'',
           \<lparr>mod_pollination = Some [(''entry_point'', VCallable (Some daylight_factor))],
            mod_submodules = []\<rparr>),
          (''broken_recipe'',
           \<lparr>mod_pollination = Some [(''name'', VStr ''broken'')], mod_submodules = []\<rparr>)],
       repo =
         \<lparr>root_folder = True,
          plugins_folder = Some [(''plugin-1.2.2.tgz'', ''# Readme from the package metadata'')],
          recipes_folder = Some [],
          index_file = Some \<lparr>index_plugin = [''plugin-1.2.2.tgz''], index_recipe = []\<rparr>\<rparr>\<rparr>)"
  by code_simp

text \<open>Packaging the example plugin on a machine without the repository folder.\<close>

theorem package_reindexes_witness:
  "\<exists>w'. package demo_env demo_world ''pollination-honeybee-radiance'' (Some ''readme of the caller'')
          = (Inr (), w')
     \<and> plugins_folder (repo w') = Some [(''plugin-1.2.2.tgz'', ''# Readme from the package metadata'')]
     \<and> index_file (repo w') = Some \<lparr>index_plugin = [''plugin-1.2.2.tgz''], index_recipe = []\<rparr>
     \<and> from_folder (repo w') = Inr \<lparr>index_plugin = [''plugin-1.2.2.tgz''], index_recipe = []\<rparr>"
proof -
  obtain w' where p: "package demo_env demo_world ''pollination-honeybee-radiance''
      (Some ''readme of the caller'') = (Inr (), w')"
    and r: "plugins_folder (repo w') = Some [(''plugin-1.2.2.tgz'', ''# Readme from the package metadata'')]"
      "index_file (repo w') = Some \<lparr>index_plugin = [''plugin-1.2.2.tgz''], index_recipe = []\<rparr>"
    using demo_package by simp
  from package_reindexes[of demo_env demo_world "''pollination-honeybee-radiance''"
      "Some ''readme of the caller''" fresh_fs] p
  obtain i where "index_file (repo w') = Some i" "from_folder (repo w') = Inr i"
    by blast
  with p r show ?thesis by auto
qed

text \<open>
  Claim C2, as the code has it. When the package loads and
  \<^verbatim>\<open>PackageVersion.package_resource\<close> raises, \<^verbatim>\<open>package\<close> raises a
  \<^verbatim>\<open>ValueError\<close> whose message names the package and its kind and ends with the message
  of the cause. No artifact and no index are written after the failure: the repository is
  left as \<^verbatim>\<open>_init_repo\<close>, which runs first, leaves it. It is what it was before the
  call when the folder, both stores and the index file existed already.
\<close>

theorem package_serialization_failure:
  assumes "load E (w\<lparr>repo := snd (init_repo E (repo w))\<rparr>) package_name False = (Inr qb_obj, w1)"
    and "get_package_readme (find_metadata E) package_name = Inr readme_text"
    and "package_resource E qb_obj readme_text = Inl cause"
  shows "package E w package_name readme =
           (Inl (Error ValueError
                   (''Failed to package '' @ package_name @ '' '' @ qb_type_of qb_obj
                    @ newline @ '' '' @ err_msg cause)), w1)
       \<and> repo w1 = snd (init_repo E (repo w))
       \<and> (root_folder (repo w) \<and> plugins_folder (repo w) \<noteq> None
            \<and> recipes_folder (repo w) \<noteq> None \<and> index_file (repo w) \<noteq> None
          \<longrightarrow> repo w1 = repo w)"
proof -
  have t: "try_package_resource E qb_obj package_name = Inl cause"
    using assms(2,3) by (simp add: try_package_resource_def)
  have r: "repo w1 = snd (init_repo E (repo w))"
    using assms(1) by (rule load_initialised_repo)
  show ?thesis
    using package_failure[OF assms(1) t] r by (auto simp: init_repo_initialised)
qed

lemma demo_failing_load:
  "fst (load failing_env (demo_world\<lparr>repo := snd (init_repo failing_env (repo demo_world))\<rparr>)
         ''pollination-honeybee-radiance'' False) =
     Inr (QPlugin
       \<lparr>plugin_config = PluginConfig (VDict [(''docker'', VStr ''ladybugtools/honeybee-radiance'')]),
        plugin_metadata =
          MetaData [(''name'', VStr ''honeybee-radiance''),
                    (''description'', VStr ''An example package.''),
                    (''tag'', VStr ''1.2.2''), (''maintainers'', VList []),
                    (''license'', VDict [(''name'', VNone), (''url'', VNone)]),
                    (''icon'', VStr ''https://example.org/icon.png'')],
        plugin_functions = [''ray-tracing'']\<rparr>)"
  by code_simp

text \<open>The example plugin with the failing serialiser, on a machine without the folder.\<close>

theorem package_serialization_failure_witness:
  "fst (package failing_env demo_world ''pollination-honeybee-radiance'' None) =
     Inl (Error ValueError
            (''Failed to package pollination-honeybee-radiance plugin'' @ newline
             @ '' cannot serialize''))
   \<and> repo (snd (package failing_env demo_world ''pollination-honeybee-radiance'' None))
       = snd (init_repo failing_env (repo demo_world))"
proof -
  obtain qb_obj w1 where
    l: "load failing_env (demo_world\<lparr>repo := snd (init_repo failing_env (repo demo_world))\<rparr>)
          ''pollination-honeybee-radiance'' False = (Inr qb_obj, w1)"
    using demo_failing_load
    by (cases "load failing_env (demo_world\<lparr>repo := snd (init_repo failing_env (repo demo_world))\<rparr>)
          ''pollination-honeybee-radiance'' False") auto
  with demo_failing_load have q: "qb_type_of qb_obj = ''plugin''"
    by (auto simp: qb_type_of_def)
  have r: "get_package_readme (find_metadata failing_env) ''pollination-honeybee-radiance''
             = Inr ''# Readme from the package metadata''"
    by code_simp
  have c: "package_resource failing_env qb_obj ''# Readme from the package metadata''
             = Inl (Error OtherError ''cannot serialize'')"
    by (simp add: failing_env_def)
  from package_serialization_failure[OF l r c, of None] q show ?thesis by simp
qed

text \<open>
  The repository is not always what it was before the call: on a machine without the
  repository folder, the failed call leaves the folder, both stores and an index file.
\<close>

theorem package_serialization_failure_counterexample:
  "fst (package failing_env demo_world ''pollination-honeybee-radiance'' None) =
     Inl (Error ValueError
            (''Failed to package pollination-honeybee-radiance plugin'' @ newline
             @ '' cannot serialize''))
   \<and> repo demo_world =
       \<lparr>root_folder = False, plugins_folder = None, recipes_folder = None, index_file = None\<rparr>
   \<and> repo (snd (package failing_env demo_world ''pollination-honeybee-radiance'' None)) =
       \<lparr>root_folder = True, plugins_folder = Some [], recipes_folder = Some [],
        index_file = Some \<lparr>index_plugin = [], index_recipe = []\<rparr>\<rparr>
   \<and> repo (snd (package failing_env demo_world ''pollination-honeybee-radiance'' None))
       \<noteq> repo demo_world"
  by code_simp

text \<open>
  Claim C9. The result of \<^verbatim>\<open>package\<close> does not depend on its \<^verbatim>\<open>readme\<close> argument.
  When it returns, the artifact in the store is the one that
  \<^verbatim>\<open>PackageVersion.package_resource\<close> made from the loaded object and the readme that
  \<^verbatim>\<open>_get_package_readme\<close> reads from the metadata of the installed package.
\<close>

theorem package_ignores_readme:
  "package E w package_name readme = package E w package_name None
   \<and> (\<forall>w'. package E w package_name readme = (Inr (), w') \<longrightarrow>
        (\<exists>qb_obj w1 readme_text url bytes files.
            load E (w\<lparr>repo := snd (init_repo E (repo w))\<rparr>) package_name False = (Inr qb_obj, w1)
          \<and> get_package_readme (find_metadata E) package_name = Inr readme_text
          \<and> package_resource E qb_obj readme_text = Inr (url, bytes)
          \<and> (if qb_type_of qb_obj = ''recipe'' then recipes_folder (repo w')
              else plugins_folder (repo w')) = Some files
          \<and> map_of files url = Some bytes))"
proof (intro conjI allI impI)
  show "package E w package_name readme = package E w package_name None"
    by (simp add: package_def)
next
  fix w' assume "package E w package_name readme = (Inr (), w')"
  from package_success[OF this] obtain qb_obj w1 readme_text url bytes fs2 repo_index where
    h: "load E (w\<lparr>repo := snd (init_repo E (repo w))\<rparr>) package_name False = (Inr qb_obj, w1)"
       "get_package_readme (find_metadata E) package_name = Inr readme_text"
       "package_resource E qb_obj readme_text = Inr (url, bytes)"
       "write_bytes (repo w1) (qb_type_of qb_obj) url bytes = Inr fs2"
       "w' = w1\<lparr>repo := fs2\<lparr>index_file := Some repo_index\<rparr>\<rparr>"
    by blast
  from h(4) obtain files where
    "(if qb_type_of qb_obj = ''recipe'' then recipes_folder fs2 else plugins_folder fs2) = Some files"
    "map_of files url = Some bytes"
    by (auto simp: write_bytes_def update_conv' split: if_splits option.splits)
  with h show "\<exists>qb_obj w1 readme_text url bytes files.
            load E (w\<lparr>repo := snd (init_repo E (repo w))\<rparr>) package_name False = (Inr qb_obj, w1)
          \<and> get_package_readme (find_metadata E) package_name = Inr readme_text
          \<and> package_resource E qb_obj readme_text = Inr (url, bytes)
          \<and> (if qb_type_of qb_obj = ''recipe'' then recipes_folder (repo w')
              else plugins_folder (repo w')) = Some files
          \<and> map_of files url = Some bytes"
    by (intro exI[of _ qb_obj] exI[of _ w1] exI[of _ readme_text] exI[of _ url] exI[of _ bytes]
        exI[of _ files]) auto
qed

text \<open>
  In the example the serialiser stores the readme it is given: the artifact holds the
  readme of the metadata, not the one passed to \<^verbatim>\<open>package\<close>.
\<close>

theorem package_ignores_readme_witness:
  "package demo_env demo_world ''pollination-honeybee-radiance'' (Some ''readme of the caller'')
     = package demo_env demo_world ''pollination-honeybee-radiance'' None
   \<and> plugins_folder (repo (snd (package demo_env demo_world ''pollination-honeybee-radiance''
        (Some ''readme of the caller''))))
     = Some [(''plugin-1.2.2.tgz'', ''# Readme from the package metadata'')]"
proof -
  have e: "package demo_env demo_world ''pollination-honeybee-radiance'' (Some ''readme of the caller'')
     = package demo_env demo_world ''pollination-honeybee-radiance'' None"
    using package_ignores_readme[of demo_env demo_world "''pollination-honeybee-radiance''"
      "Some ''readme of the caller''"] by blast
  have p: "plugins_folder (repo (snd (package demo_env demo_world ''pollination-honeybee-radiance''
        (Some ''readme of the caller''))))
     = Some [(''plugin-1.2.2.tgz'', ''# Readme from the package metadata'')]"
    unfolding demo_package by simp
  show ?thesis by (rule conjI[OF e p])
qed

end
